theory Spec2Isabelle
  imports Main "HOL-Library.Char_ord" "HOL-Library.List_Lexorder"
begin

section \<open>Values raised by the decoders\<close>

text \<open>
  A JavaScript exception is a value of the model. \<open>DecodeError\<close> is what the ABI coder throws on
  a malformed payload, \<open>TypeError\<close> is a property read on \<open>undefined\<close>, \<open>InvalidArgument\<close> is what
  the ethers helpers throw on an argument they do not accept.
\<close>

datatype error = DecodeError | TypeError | InvalidArgument

section \<open>Trace nodes and decoder state\<close>

text \<open>
  A node of the call tree as the swap and add-liquidity decoders read it (\<open>DecoderInput\<close>):
  \<open>logs\<close> and \<open>children\<close> may be \<open>undefined\<close>, which is \<open>None\<close>; \<open>returndata\<close> is present
  only after a successful execution.
\<close>

record log =
  l_address :: string
  l_topics :: "string list"
  l_data :: string

datatype DecoderInput = DecoderInput
  (n_path: string) (n_type: string) (n_from: string) (n_to: string) (n_value: int)
  (n_calldata: string) (n_returndata: "string option") (n_logs: "log list option")
  (n_children: "DecoderInput list option")

text \<open>
  Modelled from the spec: \<open>DecoderState\<close> (its declaration is not among the sources). The spec
  gives it two fields, the set of consumed paths and the set of addresses whose metadata is
  requested; \<open>isConsumed\<close> tests membership of the node's path, \<open>consume\<close> adds it, and
  \<open>requestTokenMetadata\<close> adds its argument to the requested set. The argument can be
  \<open>undefined\<close> at run time, so the requested set holds optional strings.
\<close>

record DecoderState =
  consumed :: "string set"
  pendingMetadata :: "string option set"

definition isConsumed :: "DecoderState \<Rightarrow> DecoderInput \<Rightarrow> bool" where
  "isConsumed state node = (n_path node \<in> consumed state)"

definition consume :: "DecoderState \<Rightarrow> DecoderInput \<Rightarrow> DecoderState" where
  "consume state node = state\<lparr>consumed := insert (n_path node) (consumed state)\<rparr>"

definition requestTokenMetadata :: "DecoderState \<Rightarrow> string option \<Rightarrow> DecoderState" where
  "requestTokenMetadata state token =
     state\<lparr>pendingMetadata := insert token (pendingMetadata state)\<rparr>"

text \<open>
  The remove-liquidity decoder and the two routines \<open>decodeAddLiquidity\<close> and
  \<open>decodeAddLiquidityETH\<close> read a node through other names (\<open>TraceEntry\<close>: \<open>path\<close>, \<open>variant\<close>,
  \<open>input\<close>, \<open>output\<close>, and \<open>children\<close> is always a list) and keep their bookkeeping in
  \<open>state.handled\<close>, a dictionary from paths to \<open>true\<close>, here the set of its keys.
\<close>

datatype TraceEntry = TraceEntry
  (te_path: string) (te_type: string) (te_variant: string) (te_from: string) (te_to: string)
  (te_input: string) (te_output: "string option") (te_children: "TraceEntry list")

record DecodeState =
  handled :: "string set"

section \<open>Decoded call data, return data and events\<close>

text \<open>
  What the ABI coder returns for a swap fragment: \<open>inputs['amountIn']\<close> and the other amounts
  are \<open>undefined\<close> (\<open>None\<close>) when the matched fragment has no parameter of that name; every swap
  fragment has \<open>path\<close> and \<open>to\<close>. The outputs of a swap fragment are \<open>amounts\<close>.
\<close>

record swapInputs =
  si_amountIn :: "int option"
  si_amountOutMin :: "int option"
  si_amountOut :: "int option"
  si_amountInMax :: "int option"
  si_path :: "string list"
  si_to :: string

record swapOutputs =
  so_amounts :: "int list"

record swapEvent =
  amount0In :: int
  amount1In :: int
  amount0Out :: int
  amount1Out :: int

text \<open>
  The inputs and outputs of the add-liquidity and remove-liquidity fragments; a name that the
  matched fragment does not declare reads as \<open>undefined\<close>. Every fragment declares \<open>to\<close>.
\<close>

record addInputs =
  ai_tokenA :: "string option"
  ai_tokenB :: "string option"
  ai_token :: "string option"
  ai_amountAMin :: "int option"
  ai_amountBMin :: "int option"
  ai_amountTokenMin :: "int option"
  ai_amountETHMin :: "int option"
  ai_to :: string

record addOutputs =
  ao_amountA :: "int option"
  ao_amountB :: "int option"
  ao_amountToken :: "int option"
  ao_amountETH :: "int option"
  ao_liquidity :: "int option"

record removeInputs =
  ri_tokenA :: "string option"
  ri_tokenB :: "string option"
  ri_token :: "string option"
  ri_liquidity :: "int option"
  ri_to :: string

record removeOutputs =
  ro_amountA :: "int option"
  ro_amountB :: "int option"
  ro_amountToken :: "int option"
  ro_amountETH :: "int option"

section \<open>What the decoders call outside the sources\<close>

text \<open>
  The ethers library and the methods of \<open>DecoderState\<close> whose behaviour the spec does not fix
  are parameters of the model, collected in one record:
  \<^item> \<open>sighash name\<close> is \<open>ethers.utils.id(FunctionFragment.from(name).format()).substring(0, 10)\<close>,
    the selector of a signature as '0x' and eight hexadecimal digits; \<open>topicHash\<close> is the
    topic of an event signature;
  \<^item> \<open>solidityKeccak256\<close> of two values packed as addresses and \<open>getCreate2Address\<close> of
    factory, salt and init-code hash;
  \<^item> \<open>bigNumberFrom\<close> is \<open>BigNumber.from\<close>, \<open>parseLog\<close> parses a Swap log;
  \<^item> \<open>abiSwapInputs\<close>, \<open>abiSwapOutputs\<close> and the four for the liquidity fragments decode a
    payload against a fragment;
  \<^item> \<open>consumeAll\<close>, \<open>consumeTransfer\<close> and \<open>consumeTransferFrom\<close> are the methods of
    \<open>DecoderState\<close> of these names; their argument is \<open>undefined\<close> when the decoder indexes
    past the end of the list of calls;
  \<^item> \<open>handleTransferFrom\<close>, \<open>handleTransfer\<close>, \<open>handleRecursively\<close> and
    \<open>requestTokenMetadataOf\<close> (\<open>this.requestTokenMetadata(state, token)\<close>) are the methods the
    liquidity decoders inherit, on a \<open>DecodeState\<close>.
  Each may raise, and a state method returns the state it leaves behind.
\<close>

record env =
  sighash :: "string \<Rightarrow> string"
  topicHash :: "string \<Rightarrow> string"
  solidityKeccak256 :: "string option \<Rightarrow> string option \<Rightarrow> error + string"
  getCreate2Address :: "string \<Rightarrow> string \<Rightarrow> string \<Rightarrow> error + string"
  bigNumberFrom :: "string option \<Rightarrow> error + int"
  parseLog :: "log \<Rightarrow> error + swapEvent"
  abiSwapInputs :: "string \<Rightarrow> string \<Rightarrow> error + swapInputs"
  abiSwapOutputs :: "string \<Rightarrow> string \<Rightarrow> error + swapOutputs"
  consumeAll :: "DecoderState \<Rightarrow> DecoderInput option \<Rightarrow> (error + unit) \<times> DecoderState"
  consumeTransfer :: "DecoderState \<Rightarrow> DecoderInput option \<Rightarrow> (error + unit) \<times> DecoderState"
  consumeTransferFrom :: "DecoderState \<Rightarrow> DecoderInput option \<Rightarrow> (error + unit) \<times> DecoderState"
  abiAddInputs :: "string \<Rightarrow> string \<Rightarrow> error + addInputs"
  abiAddOutputs :: "string \<Rightarrow> string \<Rightarrow> error + addOutputs"
  abiRemoveInputs :: "string \<Rightarrow> string \<Rightarrow> error + removeInputs"
  abiRemoveOutputs :: "string \<Rightarrow> string \<Rightarrow> error + removeOutputs"
  handleTransferFrom :: "DecodeState \<Rightarrow> TraceEntry option \<Rightarrow> (error + unit) \<times> DecodeState"
  handleTransfer :: "DecodeState \<Rightarrow> TraceEntry option \<Rightarrow> (error + unit) \<times> DecodeState"
  handleRecursively :: "DecodeState \<Rightarrow> TraceEntry option \<Rightarrow> (error + unit) \<times> DecodeState"
  requestTokenMetadataOf :: "DecodeState \<Rightarrow> string option \<Rightarrow> (error + unit) \<times> DecodeState"

text \<open>
  Modelled from the spec: \<open>hasSelector\<close> and \<open>hasTopic\<close> (imported from a file that is not among
  the sources). Selector matching is exact: the first four bytes of the call data, '0x' and
  eight digits of the hexadecimal string, equal the hash of the signature; the remove-liquidity
  decoder of the sources writes the same test out. An event matches when its first topic is the
  hash of the event signature.
\<close>

definition hasSelector :: "env \<Rightarrow> string \<Rightarrow> string \<Rightarrow> bool" where
  "hasSelector e calldata name = (take 10 calldata = sighash e name)"

definition hasTopic :: "env \<Rightarrow> log \<Rightarrow> string \<Rightarrow> bool" where
  "hasTopic e l name = (case l_topics l of [] \<Rightarrow> False | t # _ \<Rightarrow> t = topicHash e name)"

text \<open>
  Modelled from the spec: \<open>Decoder.decodeFunctionWithFragment\<close> (the base class is not among
  the sources). It decodes the declared inputs from the call data and, if return data is
  present, the declared outputs; otherwise the outputs are \<open>null\<close>. An error of the ABI coder
  propagates.
\<close>

definition decodeFunctionWithFragment ::
  "(string \<Rightarrow> string \<Rightarrow> error + 'i) \<Rightarrow> (string \<Rightarrow> string \<Rightarrow> error + 'o) \<Rightarrow>
     string \<Rightarrow> string option \<Rightarrow> string \<Rightarrow> error + ('i \<times> 'o option)" where
  "decodeFunctionWithFragment decodeIn decodeOut calldata returndata fragment =
     (case decodeIn fragment calldata of
        Inl err \<Rightarrow> Inl err
      | Inr inputs \<Rightarrow>
          (case returndata of
             None \<Rightarrow> Inr (inputs, None)
           | Some r \<Rightarrow>
               (case decodeOut fragment r of
                  Inl err \<Rightarrow> Inl err
                | Inr outputs \<Rightarrow> Inr (inputs, Some outputs))))"

section \<open>Sequencing of calls that may raise\<close>

text \<open>
  \<open>xs[i]\<close> in JavaScript is \<open>undefined\<close> outside the list, also at \<open>xs[xs.length - 1]\<close> of an
  empty list, where the index is -1.
\<close>

definition at :: "'a list \<Rightarrow> int \<Rightarrow> 'a option" where
  "at xs i = (if 0 \<le> i \<and> i < int (length xs) then Some (xs ! nat i) else None)"

definition andThen ::
  "(error + 'a) \<times> 's \<Rightarrow> ('a \<Rightarrow> 's \<Rightarrow> (error + 'b) \<times> 's) \<Rightarrow> (error + 'b) \<times> 's" where
  "andThen m f = (case m of (Inl err, s) \<Rightarrow> (Inl err, s) | (Inr a, s) \<Rightarrow> f a s)"

definition bindE :: "error + 'a \<Rightarrow> ('a \<Rightarrow> error + 'b) \<Rightarrow> error + 'b" where
  "bindE m f = (case m of Inl err \<Rightarrow> Inl err | Inr a \<Rightarrow> f a)"

fun forEach :: "('s \<Rightarrow> 'a \<Rightarrow> (error + unit) \<times> 's) \<Rightarrow> 'a list \<Rightarrow> 's \<Rightarrow> (error + unit) \<times> 's" where
  "forEach f [] s = (Inr (), s)"
| "forEach f (x # xs) s = andThen (f s x) (\<lambda>_ s'. forEach f xs s')"

section \<open>Pair addresses (UniswapV2RouterSwapDecoder.getTokens, computePairAddress)\<close>

text \<open>
  \<open>tokenA < tokenB\<close> on two JavaScript strings compares them code unit by code unit; the order
  of \<open>string\<close> here is the same lexicographic order on character codes. An operand that is
  \<open>undefined\<close> (an index past the end of \<open>path\<close>) makes the comparison false.
\<close>

fun jsLess :: "string option \<Rightarrow> string option \<Rightarrow> bool" where
  "jsLess (Some a) (Some b) = (a < b)"
| "jsLess _ _ = False"

definition getTokens :: "string option \<Rightarrow> string option \<Rightarrow> string option \<times> string option" where
  "getTokens tokenA tokenB = (if jsLess tokenA tokenB then (tokenA, tokenB) else (tokenB, tokenA))"

definition computePairAddress ::
  "env \<Rightarrow> string \<Rightarrow> string \<Rightarrow> string option \<Rightarrow> string option \<Rightarrow> error + string" where
  "computePairAddress e factory initcodeHash tokenA tokenB =
     (case getTokens tokenA tokenB of (token0, token1) \<Rightarrow>
        bindE (solidityKeccak256 e token0 token1)
          (\<lambda>salt. getCreate2Address e factory salt initcodeHash))"

section \<open>The swap decoder (UniswapV2RouterSwapDecoder)\<close>

record routerInfo =
  factory :: string
  initcodeHash :: string

definition uniswapsByRouter :: "string \<Rightarrow> routerInfo option" where
  "uniswapsByRouter = map_of
     [(''0x7a250d5630B4cF539739dF2C5dAcb4c659F2488D'',
         \<lparr>factory = ''0x5C69bEe701ef814a2B6a3EDD4B1652CB9cc5aA6f'',
          initcodeHash = ''0x96e8ac4277198ff8b6f785478aa9a39f403cb768dd02cbee326c3e7da348845f''\<rparr>),
      (''0xd9e1cE17f2641f24aE83637ab66a2cca9C378B9F'',
         \<lparr>factory = ''0xC0AEe478e3658e2610c5F7A4A2E1777cE9e4f2Ac'',
          initcodeHash = ''0xe18a34eb0e04b04f7a0ac29a6e80748dca96319b42c54d679cb821dca90c6303''\<rparr>)]"

datatype asset = Tokens | Eth

record swapMetadata =
  exactIn :: bool
  sm_input :: asset
  sm_output :: asset
  fee :: bool

definition swapFunctions :: "(string \<times> swapMetadata) list" where
  "swapFunctions =
     [(''swapExactTokensForTokens(uint256 amountIn,uint256 amountOutMin,address[] memory path,address to,uint256 deadline) returns (uint[] memory amounts)'',
         \<lparr>exactIn = True, sm_input = Tokens, sm_output = Tokens, fee = False\<rparr>),
      (''swapTokensForExactTokens(uint256 amountOut,uint256 amountInMax,address[] memory path,address to,uint256 deadline) returns (uint[] memory amounts)'',
         \<lparr>exactIn = False, sm_input = Tokens, sm_output = Tokens, fee = False\<rparr>),
      (''swapExactETHForTokens(uint256 amountOutMin,address[] memory path,address to,uint256 deadline) returns (uint[] memory amounts)'',
         \<lparr>exactIn = True, sm_input = Eth, sm_output = Tokens, fee = False\<rparr>),
      (''swapTokensForExactETH(uint256 amountOut,uint256 amountInMax,address[] memory path,address to,uint256 deadline) returns (uint[] memory amounts)'',
         \<lparr>exactIn = False, sm_input = Tokens, sm_output = Eth, fee = False\<rparr>),
      (''swapExactTokensForETH(uint256 amountIn,uint256 amountOutMin,address[] memory path,address to,uint256 deadline) returns (uint[] memory amounts)'',
         \<lparr>exactIn = True, sm_input = Tokens, sm_output = Eth, fee = False\<rparr>),
      (''swapETHForExactTokens(uint256 amountOut,address[] memory path,address to,uint256 deadline) returns (uint[] memory amounts)'',
         \<lparr>exactIn = False, sm_input = Eth, sm_output = Tokens, fee = False\<rparr>),
      (''swapExactTokensForTokensSupportingFeeOnTransferTokens(uint256 amountIn,uint256 amountOutMin,address[] memory path,address to,uint256 deadline)'',
         \<lparr>exactIn = True, sm_input = Tokens, sm_output = Tokens, fee = True\<rparr>),
      (''swapExactETHForTokensSupportingFeeOnTransferTokens(uint256 amountOutMin,address[] memory path,address to,uint256 deadline)'',
         \<lparr>exactIn = True, sm_input = Eth, sm_output = Tokens, fee = True\<rparr>),
      (''swapExactTokensForETHSupportingFeeOnTransferTokens(uint256 amountIn,uint256 amountOutMin,address[] memory path,address to,uint256 deadline)'',
         \<lparr>exactIn = True, sm_input = Tokens, sm_output = Eth, fee = True\<rparr>)]"

record SwapAction =
  sa_type :: string
  operator :: string
  recipient :: string
  tokenIn :: "string option"
  tokenOut :: "string option"
  amountIn :: "int option"
  amountOutMin :: "int option"
  amountOut :: "int option"
  amountInMax :: "int option"

definition callsOf :: "DecoderInput list \<Rightarrow> DecoderInput list" where
  "callsOf children = filter (\<lambda>v. n_type v = ''call'') children"

definition consumeSwaps :: "env \<Rightarrow> DecoderState \<Rightarrow> DecoderInput \<Rightarrow> (error + unit) \<times> DecoderState" where
  "consumeSwaps e state node =
     (case n_children node of
        None \<Rightarrow> (Inr (), state)
      | Some children \<Rightarrow>
          forEach
            (\<lambda>s call.
               (case n_children call of
                  None \<Rightarrow> (Inr (), consume s call)
                | Some vs \<Rightarrow>
                    forEach (\<lambda>s' v. consumeTransfer e s' (Some v))
                      (filter (\<lambda>v. n_type v = ''call''
                           \<and> hasSelector e (n_calldata v) ''transfer(address,uint256)'') vs)
                      (consume s call)))
            (filter (\<lambda>call. hasSelector e (n_calldata call) ''swap(uint256,uint256,address,bytes)'')
               (callsOf children))
            state)"

definition consumeTokenInputSwap ::
  "env \<Rightarrow> DecoderState \<Rightarrow> DecoderInput \<Rightarrow> (error + unit) \<times> DecoderState" where
  "consumeTokenInputSwap e state node =
     (case n_children node of
        None \<Rightarrow> (Inr (), state)
      | Some children \<Rightarrow> consumeTransferFrom e state (at (callsOf children) 0))"

definition consumeETHInputSwap ::
  "env \<Rightarrow> DecoderState \<Rightarrow> DecoderInput \<Rightarrow> (error + unit) \<times> DecoderState" where
  "consumeETHInputSwap e state node =
     (case n_children node of
        None \<Rightarrow> (Inr (), state)
      | Some children \<Rightarrow>
          (let calls = callsOf children in
           andThen (consumeAll e state (at calls 0)) (\<lambda>_ s1.
           andThen (consumeAll e s1 (at calls 1)) (\<lambda>_ s2.
             (case at calls (int (length calls) - 1) of
                None \<Rightarrow> (Inl TypeError, s2)
              | Some c \<Rightarrow>
                  if n_value c \<noteq> 0 then consumeAll e s2 (Some c) else (Inr (), s2))))))"

definition consumeETHOutputSwap ::
  "env \<Rightarrow> DecoderState \<Rightarrow> DecoderInput \<Rightarrow> (error + unit) \<times> DecoderState" where
  "consumeETHOutputSwap e state node =
     (case n_children node of
        None \<Rightarrow> (Inr (), state)
      | Some children \<Rightarrow>
          (let calls = callsOf children in
           andThen (consumeAll e state (at calls (int (length calls) - 2))) (\<lambda>_ s1.
             consumeAll e s1 (at calls (int (length calls) - 1)))))"

text \<open>The calls of \<open>decodeCall\<close> that consume events and calls, in the order of the source.\<close>

definition consumeForSwap ::
  "env \<Rightarrow> DecoderState \<Rightarrow> DecoderInput \<Rightarrow> swapMetadata \<Rightarrow> (error + unit) \<times> DecoderState" where
  "consumeForSwap e state node swapMetadata =
     andThen
       (if sm_input swapMetadata = Tokens then consumeTokenInputSwap e (consume state node) node
        else consumeETHInputSwap e (consume state node) node) (\<lambda>_ s1.
     andThen (consumeSwaps e s1 node) (\<lambda>_ s2.
       if sm_output swapMetadata = Eth then consumeETHOutputSwap e s2 node else (Inr (), s2)))"

text \<open>"pull info from calldata"\<close>

definition pullFromCalldata :: "swapMetadata \<Rightarrow> DecoderInput \<Rightarrow> swapInputs \<Rightarrow> SwapAction \<Rightarrow> SwapAction" where
  "pullFromCalldata swapMetadata node inputs swapResult =
     (if exactIn swapMetadata
      then swapResult\<lparr>amountIn := (if sm_input swapMetadata = Eth then Some (n_value node)
                                    else si_amountIn inputs),
                       amountOutMin := si_amountOutMin inputs\<rparr>
      else swapResult\<lparr>amountOut := si_amountOut inputs,
                       amountInMax := si_amountInMax inputs\<rparr>)"

text \<open>"pull info from events"\<close>

definition pullFromEvents ::
  "env \<Rightarrow> routerInfo \<Rightarrow> DecoderInput \<Rightarrow> string list \<Rightarrow> SwapAction \<Rightarrow> error + SwapAction" where
  "pullFromEvents e info node path swapResult =
     (case n_logs node of
        None \<Rightarrow> Inr swapResult
      | Some logs \<Rightarrow>
          (let swapEventSelector = ''Swap(address indexed sender, uint amount0In, uint amount1In, uint amount0Out, uint amount1Out, address indexed to)'';
               swapEvents = filter (\<lambda>l. hasTopic e l swapEventSelector) logs;
               len = int (length path)
           in case getTokens (at path 0) (at path 1) of (firstToken0, firstToken1) \<Rightarrow>
              bindE (computePairAddress e (factory info) (initcodeHash info) firstToken0 firstToken1)
                (\<lambda>firstPairAddress.
              case getTokens (at path (len - 2)) (at path (len - 1)) of (lastToken0, lastToken1) \<Rightarrow>
              bindE (computePairAddress e (factory info) (initcodeHash info) lastToken0 lastToken1)
                (\<lambda>lastPairAddress.
              let firstSwapEvent = find (\<lambda>event. l_address event = firstPairAddress) swapEvents;
                  lastSwapEvent = find (\<lambda>event. l_address event = lastPairAddress) (rev swapEvents)
              in
              bindE (case firstSwapEvent of
                       None \<Rightarrow> Inr swapResult
                     | Some ev \<Rightarrow>
                         bindE (parseLog e ev) (\<lambda>parsedEvent.
                           Inr (swapResult\<lparr>amountIn :=
                                  Some (if firstToken0 = at path 0 then amount0In parsedEvent
                                        else amount1In parsedEvent)\<rparr>)))
                (\<lambda>swapResult1.
                   case lastSwapEvent of
                     None \<Rightarrow> Inr swapResult1
                   | Some ev \<Rightarrow>
                       bindE (parseLog e ev) (\<lambda>parsedEvent.
                         Inr (swapResult1\<lparr>amountOut :=
                                Some (if lastToken0 = at path (len - 1) then amount0Out parsedEvent
                                      else amount1Out parsedEvent)\<rparr>)))))))"

text \<open>"pull info from returndata"\<close>

definition pullFromReturndata ::
  "env \<Rightarrow> swapMetadata \<Rightarrow> DecoderInput \<Rightarrow> swapOutputs option \<Rightarrow> SwapAction \<Rightarrow> error + SwapAction" where
  "pullFromReturndata e swapMetadata node outputs swapResult =
     (case outputs of
        None \<Rightarrow> Inr swapResult
      | Some outs \<Rightarrow>
          if \<not> fee swapMetadata then
            (let amounts = so_amounts outs
             in Inr (swapResult\<lparr>amountOut := at amounts (int (length amounts) - 1)\<rparr>))
          else
            (case n_children node of
               None \<Rightarrow> Inr swapResult
             | Some children \<Rightarrow>
                 (case sm_output swapMetadata of
                    Tokens \<Rightarrow>
                      (let balanceOfCalls =
                             filter (\<lambda>v. hasSelector e (n_calldata v) ''balanceOf(address)'')
                               (filter (\<lambda>v. n_type v = ''staticcall'') children)
                       in case at balanceOfCalls 0 of
                            None \<Rightarrow> Inl TypeError
                          | Some c0 \<Rightarrow>
                              bindE (bigNumberFrom e (n_returndata c0)) (\<lambda>initialBalance.
                                case at balanceOfCalls (int (length balanceOfCalls) - 1) of
                                  None \<Rightarrow> Inl TypeError
                                | Some c1 \<Rightarrow>
                                    bindE (bigNumberFrom e (n_returndata c1)) (\<lambda>finalBalance.
                                      Inr (swapResult\<lparr>amountOut := Some (finalBalance - initialBalance)\<rparr>))))
                  | Eth \<Rightarrow>
                      (let calls = callsOf children
                       in case at calls (int (length calls) - 1) of
                            None \<Rightarrow> Inl TypeError
                          | Some c \<Rightarrow> Inr (swapResult\<lparr>amountOut := Some (n_value c)\<rparr>)))))"

definition swapDecodeCall ::
  "env \<Rightarrow> DecoderState \<Rightarrow> DecoderInput \<Rightarrow> (error + SwapAction option) \<times> DecoderState" where
  "swapDecodeCall e state node =
     (if isConsumed state node then (Inr None, state)
      else if n_type node \<noteq> ''call'' then (Inr None, state)
      else
        (case uniswapsByRouter (n_to node) of
           None \<Rightarrow> (Inr None, state)
         | Some info \<Rightarrow>
             (case find (\<lambda>(name, func). hasSelector e (n_calldata node) name) swapFunctions of
                None \<Rightarrow> (Inr None, state)
              | Some (name, swapMetadata) \<Rightarrow>
                  (case decodeFunctionWithFragment (abiSwapInputs e) (abiSwapOutputs e)
                          (n_calldata node) (n_returndata node) name of
                     Inl err \<Rightarrow> (Inl err, state)
                   | Inr (inputs, outputs) \<Rightarrow>
                       andThen (consumeForSwap e state node swapMetadata) (\<lambda>_ s1.
                         (let path = si_path inputs;
                              swapResult = \<lparr>sa_type = ''uniswap-v2-router-swap'',
                                            operator = n_from node,
                                            recipient = si_to inputs,
                                            tokenIn = at path 0,
                                            tokenOut = at path (int (length path) - 1),
                                            amountIn = None, amountOutMin = None,
                                            amountOut = None, amountInMax = None\<rparr>;
                              s2 = requestTokenMetadata (requestTokenMetadata s1 (tokenIn swapResult))
                                     (tokenOut swapResult)
                          in case bindE (pullFromEvents e info node path
                                           (pullFromCalldata swapMetadata node inputs swapResult))
                                    (pullFromReturndata e swapMetadata node outputs) of
                               Inl err \<Rightarrow> (Inl err, s2)
                             | Inr r \<Rightarrow> (Inr (Some r), s2)))))))"

section \<open>The add-liquidity decoder (UniswapV2RouterAddLiquidityDecoder)\<close>

text \<open>
  The result type declares \<open>pool\<close> and the optional \<open>amountA\<close>, \<open>amountB\<close> and \<open>liquidity\<close>; a
  field the object literal of \<open>decodeCall\<close> does not set is \<open>undefined\<close>.
\<close>

record UniswapV2RouterAddLiquidityResult =
  al_type :: string
  al_actor :: string
  al_recipient :: string
  al_pool :: "string option"
  al_tokenA :: "string option"
  al_tokenB :: "string option"
  al_amountADesired :: "int option"
  al_amountBDesired :: "int option"
  al_amountAMin :: "int option"
  al_amountBMin :: "int option"
  al_amountA :: "int option"
  al_amountB :: "int option"
  al_liquidity :: "int option"

definition addFunctions :: "(string \<times> bool) list" where
  "addFunctions =
     [(''addLiquidity(address tokenA,address tokenB,uint256 amountADesired,uint256 amountBDesired,uint256 amountAMin,uint256 amountBMin,address to,uint256 deadline) returns (uint amountA, uint amountB, uint liquidity)'',
         False),
      (''addLiquidityETH(address token,uint256 amountTokenDesired,uint256 amountTokenMin,uint256 amountETHMin,address to,uint256) returns (uint amountToken, uint amountETH, uint liquidity)'',
         True)]"

definition addDecodeCall ::
  "env \<Rightarrow> DecoderState \<Rightarrow> DecoderInput \<Rightarrow>
     (error + UniswapV2RouterAddLiquidityResult option) \<times> DecoderState" where
  "addDecodeCall e state node =
     (if isConsumed state node then (Inr None, state)
      else if n_type node \<noteq> ''call'' then (Inr None, state)
      else
        (case find (\<lambda>(name, func). hasSelector e (n_calldata node) name) addFunctions of
           None \<Rightarrow> (Inr None, state)
         | Some (name, eth) \<Rightarrow>
             (case decodeFunctionWithFragment (abiAddInputs e) (abiAddOutputs e)
                     (n_calldata node) (n_returndata node) name of
                Inl err \<Rightarrow> (Inl err, state)
              | Inr (inputs, outputs) \<Rightarrow>
                  (let result =
                         \<lparr>al_type = ''uniswap-v2-router-add-liquidity'',
                          al_actor = n_from node,
                          al_recipient = ai_to inputs,
                          al_pool = None,
                          al_tokenA = (if eth then ai_token inputs else ai_tokenA inputs),
                          al_tokenB = (if eth then Some ''0xeeeeeeeeeeeeeeeeeeeeeeeeeeeeeeeeeeeeeeee''
                                       else ai_tokenB inputs),
                          al_amountADesired =
                            (if eth then ai_amountTokenMin inputs else ai_amountAMin inputs),
                          al_amountBDesired = (if eth then None else ai_amountBMin inputs),
                          al_amountAMin =
                            (if eth then ai_amountTokenMin inputs else ai_amountAMin inputs),
                          al_amountBMin =
                            (if eth then ai_amountETHMin inputs else ai_amountBMin inputs),
                          al_amountA = None, al_amountB = None, al_liquidity = None\<rparr>
                   in (Inr (Some result),
                       requestTokenMetadata
                         (requestTokenMetadata (requestTokenMetadata state (al_tokenA result))
                            (al_tokenB result))
                         (al_pool result))))))"

text \<open>
  What a decode routine of the liquidity decoders returns: pool, tokenA, tokenB, amountA,
  amountB, liquidity and recipient.
\<close>

type_synonym liquidityFields =
  "string \<times> string option \<times> string option \<times> int option \<times> int option \<times> int option \<times> string"

text \<open>\<open>x.to\<close>, \<open>x.path\<close> and \<open>outputs['name']\<close> raise a TypeError when \<open>x\<close> or \<open>outputs\<close> is undefined or null.\<close>

definition readProp :: "'a option \<Rightarrow> ('a \<Rightarrow> 'b) \<Rightarrow> error + 'b" where
  "readProp x f = (case x of None \<Rightarrow> Inl TypeError | Some v \<Rightarrow> Inr (f v))"

definition handleAddLiquidity :: "env \<Rightarrow> TraceEntry list \<Rightarrow> error + bool" where
  "handleAddLiquidity e subcalls =
     bindE (readProp (at subcalls 0) te_input)
       (\<lambda>inp. Inr (take 10 inp = sighash e ''createPair(address,address)''))"

definition decodeAddLiquidity ::
  "env \<Rightarrow> DecodeState \<Rightarrow> addInputs \<Rightarrow> addOutputs option \<Rightarrow> TraceEntry list \<Rightarrow>
     (error + liquidityFields) \<times> DecodeState" where
  "decodeAddLiquidity e state inputs outputs subcalls =
     (case handleAddLiquidity e subcalls of
        Inl err \<Rightarrow> (Inl err, state)
      | Inr created \<Rightarrow>
          (let idx = (if created then 1 else 0 :: int) in
           andThen (handleTransferFrom e state (at subcalls idx)) (\<lambda>_ s1.
           andThen (handleTransfer e s1 (at subcalls (idx + 1))) (\<lambda>_ s2.
           andThen (handleRecursively e s2 (at subcalls (idx + 2))) (\<lambda>_ s3.
             (bindE (readProp (at subcalls (idx + 2)) te_to) (\<lambda>pool.
              bindE (readProp outputs ao_amountA) (\<lambda>amountA.
              bindE (readProp outputs ao_amountB) (\<lambda>amountB.
              bindE (readProp outputs ao_liquidity) (\<lambda>liquidity.
                Inr (pool, ai_tokenA inputs, ai_tokenB inputs, amountA, amountB, liquidity,
                     ai_to inputs))))), s3))))))"

definition decodeAddLiquidityETH ::
  "env \<Rightarrow> DecodeState \<Rightarrow> addInputs \<Rightarrow> addOutputs option \<Rightarrow> TraceEntry list \<Rightarrow>
     (error + liquidityFields) \<times> DecodeState" where
  "decodeAddLiquidityETH e state inputs outputs subcalls =
     (case handleAddLiquidity e subcalls of
        Inl err \<Rightarrow> (Inl err, state)
      | Inr created \<Rightarrow>
          (let idx = (if created then 1 else 0 :: int) in
           andThen (handleTransferFrom e state (at subcalls idx)) (\<lambda>_ s1.
           andThen (handleRecursively e s1 (at subcalls (idx + 1))) (\<lambda>_ s2.
           andThen (handleRecursively e s2 (at subcalls (idx + 2))) (\<lambda>_ s3.
           andThen (handleRecursively e s3 (at subcalls (idx + 3))) (\<lambda>_ s4.
           andThen (if idx + 4 < int (length subcalls)
                    then handleRecursively e s4 (at subcalls (idx + 4))
                    else (Inr (), s4)) (\<lambda>_ s5.
             (bindE (readProp (at subcalls (idx + 3)) te_to) (\<lambda>pool.
              bindE (readProp outputs ao_amountToken) (\<lambda>amountToken.
              bindE (readProp outputs ao_amountETH) (\<lambda>amountETH.
              bindE (readProp outputs ao_liquidity) (\<lambda>liquidity.
                Inr (pool, ai_token inputs, Some ''0xeeeeeeeeeeeeeeeeeeeeeeeeeeeeeeeeeeeeeeee'',
                     amountToken, amountETH, liquidity, ai_to inputs))))), s5))))))))"

section \<open>The remove-liquidity decoder (UniswapV2RouterRemoveLiquidityDecoder)\<close>

record UniswapV2RouterRemoveLiquidityResult =
  rl_type :: string
  rl_actor :: string
  rl_recipient :: string
  rl_pool :: string
  rl_tokenA :: "string option"
  rl_tokenB :: "string option"
  rl_amountA :: "int option"
  rl_amountB :: "int option"
  rl_liquidity :: "int option"

definition handleRemoveLiquidity ::
  "env \<Rightarrow> TraceEntry list \<Rightarrow> DecodeState \<Rightarrow> int \<Rightarrow> (error + int) \<times> DecodeState" where
  "handleRemoveLiquidity e subcalls state offset =
     andThen (handleTransferFrom e state (at subcalls offset)) (\<lambda>_ s1.
     andThen (handleRecursively e s1 (at subcalls (offset + 1))) (\<lambda>_ s2.
       (Inr (offset + 2), s2)))"

text \<open>\<open>state.handled[x.path] = true\<close>\<close>

definition markHandled :: "DecodeState \<Rightarrow> TraceEntry option \<Rightarrow> (error + unit) \<times> DecodeState" where
  "markHandled state x =
     (case x of
        None \<Rightarrow> (Inl TypeError, state)
      | Some v \<Rightarrow> (Inr (), state\<lparr>handled := insert (te_path v) (handled state)\<rparr>))"

definition decodeRemoveLiquidity ::
  "env \<Rightarrow> TraceEntry \<Rightarrow> DecodeState \<Rightarrow> removeInputs \<Rightarrow> removeOutputs option \<Rightarrow>
     TraceEntry list \<Rightarrow> (error + liquidityFields) \<times> DecodeState" where
  "decodeRemoveLiquidity e node state inputs outputs subcalls =
     andThen (handleRemoveLiquidity e subcalls state 0) (\<lambda>_ s1.
       (bindE (readProp (at subcalls 0) te_to) (\<lambda>pool.
        bindE (readProp outputs ro_amountA) (\<lambda>amountA.
        bindE (readProp outputs ro_amountB) (\<lambda>amountB.
          Inr (pool, ri_tokenA inputs, ri_tokenB inputs, amountA, amountB,
               ri_liquidity inputs, ri_to inputs)))), s1))"

definition decodeRemoveLiquidityETH ::
  "env \<Rightarrow> TraceEntry \<Rightarrow> DecodeState \<Rightarrow> removeInputs \<Rightarrow> removeOutputs option \<Rightarrow>
     TraceEntry list \<Rightarrow> (error + liquidityFields) \<times> DecodeState" where
  "decodeRemoveLiquidityETH e node state inputs outputs subcalls =
     andThen (handleRemoveLiquidity e subcalls state 0) (\<lambda>_ s1.
     andThen (handleTransfer e s1 (at subcalls 2)) (\<lambda>_ s2.
     andThen (handleRecursively e s2 (at subcalls 3)) (\<lambda>_ s3.
     andThen (markHandled s3 (at subcalls 4)) (\<lambda>_ s4.
       (bindE (readProp (at subcalls 0) te_to) (\<lambda>pool.
        bindE (readProp outputs ro_amountToken) (\<lambda>amountToken.
        bindE (readProp outputs ro_amountETH) (\<lambda>amountETH.
          Inr (pool, ri_token inputs, Some ''0xeeeeeeeeeeeeeeeeeeeeeeeeeeeeeeeeeeeeeeee'',
               amountToken, amountETH, ri_liquidity inputs, ri_to inputs)))), s4)))))"

definition decodeRemoveLiquidityWithPermit ::
  "env \<Rightarrow> TraceEntry \<Rightarrow> DecodeState \<Rightarrow> removeInputs \<Rightarrow> removeOutputs option \<Rightarrow>
     TraceEntry list \<Rightarrow> (error + liquidityFields) \<times> DecodeState" where
  "decodeRemoveLiquidityWithPermit e node state inputs outputs subcalls =
     andThen (handleRemoveLiquidity e subcalls state 1) (\<lambda>_ s1.
       (bindE (readProp (at subcalls 0) te_to) (\<lambda>pool.
        bindE (readProp outputs ro_amountA) (\<lambda>amountA.
        bindE (readProp outputs ro_amountB) (\<lambda>amountB.
          Inr (pool, ri_tokenA inputs, ri_tokenB inputs, amountA, amountB,
               ri_liquidity inputs, ri_to inputs)))), s1))"

definition decodeRemoveLiquidityETHWithPermit ::
  "env \<Rightarrow> TraceEntry \<Rightarrow> DecodeState \<Rightarrow> removeInputs \<Rightarrow> removeOutputs option \<Rightarrow>
     TraceEntry list \<Rightarrow> (error + liquidityFields) \<times> DecodeState" where
  "decodeRemoveLiquidityETHWithPermit e node state inputs outputs subcalls =
     andThen (handleRemoveLiquidity e subcalls state 1) (\<lambda>offset s1.
     andThen (handleTransfer e s1 (at subcalls offset)) (\<lambda>_ s2.
     andThen (handleRecursively e s2 (at subcalls (offset + 1))) (\<lambda>_ s3.
     andThen (markHandled s3 (at subcalls (offset + 2))) (\<lambda>_ s4.
       (bindE (readProp (at subcalls 0) te_to) (\<lambda>pool.
        bindE (readProp outputs ro_amountToken) (\<lambda>amountToken.
        bindE (readProp outputs ro_amountETH) (\<lambda>amountETH.
          Inr (pool, ri_token inputs, Some ''0xeeeeeeeeeeeeeeeeeeeeeeeeeeeeeeeeeeeeeeee'',
               amountToken, amountETH, ri_liquidity inputs, ri_to inputs)))), s4)))))"

text \<open>
  The two fee-on-transfer routines have the same body but for the offset they start from: the
  token amount is the output of the last static call among the children.
\<close>

definition decodeRemoveLiquidityETHFee ::
  "int \<Rightarrow> env \<Rightarrow> TraceEntry \<Rightarrow> DecodeState \<Rightarrow> removeInputs \<Rightarrow> removeOutputs option \<Rightarrow>
     TraceEntry list \<Rightarrow> (error + liquidityFields) \<times> DecodeState" where
  "decodeRemoveLiquidityETHFee start e node state inputs outputs subcalls =
     andThen (handleRemoveLiquidity e subcalls state start) (\<lambda>offset s1.
     andThen (handleTransfer e s1 (at subcalls offset)) (\<lambda>_ s2.
     andThen (handleRecursively e s2 (at subcalls (offset + 1))) (\<lambda>_ s3.
     andThen (markHandled s3 (at subcalls (offset + 2))) (\<lambda>_ s4.
       (let staticcalls =
              filter (\<lambda>v. te_type v = ''call'' \<and> te_variant v = ''staticcall'') (te_children node)
        in bindE (readProp (at staticcalls (int (length staticcalls) - 1)) te_output) (\<lambda>out.
           bindE (bigNumberFrom e out) (\<lambda>output.
           bindE (readProp (at subcalls 0) te_to) (\<lambda>pool.
           bindE (readProp outputs ro_amountETH) (\<lambda>amountETH.
             Inr (pool, ri_token inputs, Some ''0xeeeeeeeeeeeeeeeeeeeeeeeeeeeeeeeeeeeeeeee'',
                  Some output, amountETH, ri_liquidity inputs, ri_to inputs))))), s4)))))"

definition decodeRemoveLiquidityETHSupportingFeeOnTransferTokens ::
  "env \<Rightarrow> TraceEntry \<Rightarrow> DecodeState \<Rightarrow> removeInputs \<Rightarrow> removeOutputs option \<Rightarrow>
     TraceEntry list \<Rightarrow> (error + liquidityFields) \<times> DecodeState" where
  "decodeRemoveLiquidityETHSupportingFeeOnTransferTokens = decodeRemoveLiquidityETHFee 0"

definition decodeRemoveLiquidityETHWithPermitSupportingFeeOnTransferTokens ::
  "env \<Rightarrow> TraceEntry \<Rightarrow> DecodeState \<Rightarrow> removeInputs \<Rightarrow> removeOutputs option \<Rightarrow>
     TraceEntry list \<Rightarrow> (error + liquidityFields) \<times> DecodeState" where
  "decodeRemoveLiquidityETHWithPermitSupportingFeeOnTransferTokens = decodeRemoveLiquidityETHFee 1"

definition addLiquidityFunctions ::
  "(string \<times> (env \<Rightarrow> TraceEntry \<Rightarrow> DecodeState \<Rightarrow> removeInputs \<Rightarrow> removeOutputs option \<Rightarrow>
       TraceEntry list \<Rightarrow> (error + liquidityFields) \<times> DecodeState)) list" where
  "addLiquidityFunctions =
     [(''removeLiquidity(address tokenA,address tokenB,uint256 liquidity,uint256 amountAMin,uint256 amountBMin,address to,uint256 deadline) returns (uint amountA, uint amountB)'',
         decodeRemoveLiquidity),
      (''removeLiquidityETH(address token,uint256 liquidity,uint256 amountTokenMin,uint256 amountETHMin,address to,uint256 deadline) returns (uint amountToken, uint amountETH)'',
         decodeRemoveLiquidityETH),
      (''removeLiquidityWithPermit(address tokenA,address tokenB,uint256 liquidity,uint256 amountAMin,uint256 amountBMin,address to,uint256 deadline,bool approveMax,uint8 v,bytes32 r,bytes32 s) returns (uint amountA, uint amountB)'',
         decodeRemoveLiquidityWithPermit),
      (''removeLiquidityETHWithPermit(address token,uint256 liquidity,uint256 amountTokenMin,uint256 amountETHMin,address to,uint256 deadline,bool approveMax,uint8 v,bytes32 r,bytes32 s) returns (uint amountToken, uint amountETH)'',
         decodeRemoveLiquidityETHWithPermit),
      (''removeLiquidityETHSupportingFeeOnTransferTokens(address token,uint256 liquidity,uint256 amountTokenMin,uint256 amountETHMin,address to,uint256 deadline) returns (uint amountETH)'',
         decodeRemoveLiquidityETHSupportingFeeOnTransferTokens),
      (''removeLiquidityETHWithPermitSupportingFeeOnTransferTokens(address token,uint256 liquidity,uint256 amountTokenMin,uint256 amountETHMin,address to,uint256 deadline,bool approveMax,uint8 v,bytes32 r,bytes32 s) returns (uint amountETH)'',
         decodeRemoveLiquidityETHWithPermitSupportingFeeOnTransferTokens)]"

definition removeDecode ::
  "env \<Rightarrow> TraceEntry \<Rightarrow> DecodeState \<Rightarrow>
     (error + UniswapV2RouterRemoveLiquidityResult option) \<times> DecodeState" where
  "removeDecode e node state =
     (if te_path node \<in> handled state then (Inr None, state)
      else if te_type node \<noteq> ''call'' then (Inr None, state)
      else
        (let selector = take 10 (te_input node) in
         case find (\<lambda>(name, func). sighash e name = selector) addLiquidityFunctions of
           None \<Rightarrow> (Inr None, state)
         | Some (name, decoder) \<Rightarrow>
             (let state1 = state\<lparr>handled := insert (te_path node) (handled state)\<rparr> in
              case decodeFunctionWithFragment (abiRemoveInputs e) (abiRemoveOutputs e)
                     (te_input node) (te_output node) name of
                Inl err \<Rightarrow> (Inl err, state1)
              | Inr (inputs, outputs) \<Rightarrow>
                  (let subcalls =
                         filter (\<lambda>v. te_type v = ''call'' \<and> te_variant v = ''call'') (te_children node)
                   in andThen (decoder e node state1 inputs outputs subcalls)
                        (\<lambda>(pool, tokenA, tokenB, amountA, amountB, liquidity, to) s2.
                      andThen (requestTokenMetadataOf e s2 tokenA) (\<lambda>_ s3.
                      andThen (requestTokenMetadataOf e s3 tokenB) (\<lambda>_ s4.
                      andThen (requestTokenMetadataOf e s4 (Some pool)) (\<lambda>_ s5.
                        (Inr (Some \<lparr>rl_type = ''uniswap-v2-router-remove-liquidity'',
                                    rl_actor = te_from node,
                                    rl_recipient = to,
                                    rl_pool = pool,
                                    rl_tokenA = tokenA,
                                    rl_tokenB = tokenB,
                                    rl_amountA = amountA,
                                    rl_amountB = amountB,
                                    rl_liquidity = liquidity\<rparr>), s5)))))))))"

section \<open>Notions the properties are stated with\<close>

text \<open>The unsigned value of a hexadecimal address, digit by digit, in either letter case.\<close>

definition hexDigit :: "char \<Rightarrow> nat" where
  "hexDigit c =
     (let n = (of_char c :: nat) in
      if 48 \<le> n \<and> n \<le> 57 then n - 48
      else if 97 \<le> n \<and> n \<le> 102 then n - 87
      else if 65 \<le> n \<and> n \<le> 70 then n - 55
      else 0)"

definition addressValue :: "string \<Rightarrow> nat" where
  "addressValue a = foldl (\<lambda>acc c. 16 * acc + hexDigit c) 0 (drop 2 a)"

text \<open>Two addresses that differ only in the case of their hexadecimal letters.\<close>

definition toLowerCase :: "string \<Rightarrow> string" where
  "toLowerCase s =
     map (\<lambda>c. if 65 \<le> (of_char c :: nat) \<and> (of_char c :: nat) \<le> 90
              then char_of ((of_char c :: nat) + 32) else c) s"

definition differsOnlyInCase :: "string \<Rightarrow> string \<Rightarrow> bool" where
  "differsOnlyInCase a b = (a \<noteq> b \<and> toLowerCase a = toLowerCase b)"

text \<open>
  The pair addresses \<open>decodeCall\<close> derives for the first hop and for the last hop of a path.
\<close>

definition firstPairAddress :: "env \<Rightarrow> routerInfo \<Rightarrow> string list \<Rightarrow> error + string" where
  "firstPairAddress e info path =
     computePairAddress e (factory info) (initcodeHash info)
       (fst (getTokens (at path 0) (at path 1))) (snd (getTokens (at path 0) (at path 1)))"

definition lastPairAddress :: "env \<Rightarrow> routerInfo \<Rightarrow> string list \<Rightarrow> error + string" where
  "lastPairAddress e info path =
     computePairAddress e (factory info) (initcodeHash info)
       (fst (getTokens (at path (int (length path) - 2)) (at path (int (length path) - 1))))
       (snd (getTokens (at path (int (length path) - 2)) (at path (int (length path) - 1))))"

text \<open>
  The four sources of swap amounts, each read on its own. \<open>None\<close> says that the source gives
  no value: the call arguments have no such parameter, the pair emitted no Swap log, no
  outputs were decoded. The value of the return data and of the nested calls can itself be
  \<open>undefined\<close> (the last element of an empty \<open>amounts\<close>).
\<close>

definition argsAmountIn :: "swapMetadata \<Rightarrow> DecoderInput \<Rightarrow> swapInputs \<Rightarrow> int option" where
  "argsAmountIn md node inputs =
     (if exactIn md
      then (if sm_input md = Eth then Some (n_value node) else si_amountIn inputs)
      else None)"

definition argsAmountOut :: "swapMetadata \<Rightarrow> swapInputs \<Rightarrow> int option" where
  "argsAmountOut md inputs = (if exactIn md then None else si_amountOut inputs)"

definition swapLogsAt :: "env \<Rightarrow> DecoderInput \<Rightarrow> string \<Rightarrow> log list" where
  "swapLogsAt e node p =
     (case n_logs node of
        None \<Rightarrow> []
      | Some logs \<Rightarrow>
          filter (\<lambda>l. hasTopic e l ''Swap(address indexed sender, uint amount0In, uint amount1In, uint amount0Out, uint amount1Out, address indexed to)''
                      \<and> l_address l = p) logs)"

definition eventsAmountIn :: "env \<Rightarrow> routerInfo \<Rightarrow> DecoderInput \<Rightarrow> string list \<Rightarrow> int option" where
  "eventsAmountIn e info node path =
     (case firstPairAddress e info path of
        Inl err \<Rightarrow> None
      | Inr p \<Rightarrow>
          (case swapLogsAt e node p of
             [] \<Rightarrow> None
           | ev # evs \<Rightarrow>
               (case parseLog e ev of
                  Inl err \<Rightarrow> None
                | Inr parsed \<Rightarrow>
                    Some (if fst (getTokens (at path 0) (at path 1)) = at path 0
                          then amount0In parsed else amount1In parsed))))"

definition eventsAmountOut :: "env \<Rightarrow> routerInfo \<Rightarrow> DecoderInput \<Rightarrow> string list \<Rightarrow> int option" where
  "eventsAmountOut e info node path =
     (case lastPairAddress e info path of
        Inl err \<Rightarrow> None
      | Inr p \<Rightarrow>
          (case swapLogsAt e node p of
             [] \<Rightarrow> None
           | ev # evs \<Rightarrow>
               (case parseLog e (last (ev # evs)) of
                  Inl err \<Rightarrow> None
                | Inr parsed \<Rightarrow>
                    Some (if fst (getTokens (at path (int (length path) - 2))
                                    (at path (int (length path) - 1)))
                             = at path (int (length path) - 1)
                          then amount0Out parsed else amount1Out parsed))))"

definition returnAmountOut ::
  "env \<Rightarrow> swapMetadata \<Rightarrow> DecoderInput \<Rightarrow> swapOutputs option \<Rightarrow> int option option" where
  "returnAmountOut e md node outputs =
     (case outputs of
        None \<Rightarrow> None
      | Some outs \<Rightarrow>
          if \<not> fee md then Some (at (so_amounts outs) (int (length (so_amounts outs)) - 1))
          else
            (case n_children node of
               None \<Rightarrow> None
             | Some children \<Rightarrow>
                 (case sm_output md of
                    Tokens \<Rightarrow>
                      (case filter (\<lambda>v. hasSelector e (n_calldata v) ''balanceOf(address)'')
                              (filter (\<lambda>v. n_type v = ''staticcall'') children) of
                         [] \<Rightarrow> None
                       | c # cs \<Rightarrow>
                           (case (bigNumberFrom e (n_returndata c),
                                  bigNumberFrom e (n_returndata (last (c # cs)))) of
                              (Inr initialBalance, Inr finalBalance) \<Rightarrow>
                                Some (Some (finalBalance - initialBalance))
                            | _ \<Rightarrow> None))
                  | Eth \<Rightarrow>
                      (case callsOf children of
                         [] \<Rightarrow> None
                       | c # cs \<Rightarrow> Some (Some (n_value (last (c # cs))))))))"

section \<open>A concrete environment and sample traces\<close>

text \<open>
  To evaluate the decoders on concrete nodes, the parameters are instantiated with tables: the
  selectors, the Swap topic, the salt and the pair address are the values keccak-256 gives for
  the signatures of the decoders and for the pair of the two sample tokens under the first
  router's factory; the ABI coder is tabulated on the sample payloads and raises a DecodeError
  elsewhere; the state methods mark the node they are given and raise a TypeError on
  \<open>undefined\<close>.
\<close>

definition selectors :: "(string \<times> string) list" where
  "selectors =
     [(''swapExactTokensForTokens(uint256 amountIn,uint256 amountOutMin,address[] memory path,address to,uint256 deadline) returns (uint[] memory amounts)'',
         ''0x38ed1739''),
      (''swapTokensForExactTokens(uint256 amountOut,uint256 amountInMax,address[] memory path,address to,uint256 deadline) returns (uint[] memory amounts)'',
         ''0x8803dbee''),
      (''swapExactETHForTokens(uint256 amountOutMin,address[] memory path,address to,uint256 deadline) returns (uint[] memory amounts)'',
         ''0x7ff36ab5''),
      (''swapTokensForExactETH(uint256 amountOut,uint256 amountInMax,address[] memory path,address to,uint256 deadline) returns (uint[] memory amounts)'',
         ''0x4a25d94a''),
      (''swapExactTokensForETH(uint256 amountIn,uint256 amountOutMin,address[] memory path,address to,uint256 deadline) returns (uint[] memory amounts)'',
         ''0x18cbafe5''),
      (''swapETHForExactTokens(uint256 amountOut,address[] memory path,address to,uint256 deadline) returns (uint[] memory amounts)'',
         ''0xfb3bdb41''),
      (''swapExactTokensForTokensSupportingFeeOnTransferTokens(uint256 amountIn,uint256 amountOutMin,address[] memory path,address to,uint256 deadline)'',
         ''0x5c11d795''),
      (''swapExactETHForTokensSupportingFeeOnTransferTokens(uint256 amountOutMin,address[] memory path,address to,uint256 deadline)'',
         ''0xb6f9de95''),
      (''swapExactTokensForETHSupportingFeeOnTransferTokens(uint256 amountIn,uint256 amountOutMin,address[] memory path,address to,uint256 deadline)'',
         ''0x791ac947''),
      (''swap(uint256,uint256,address,bytes)'',
         ''0x022c0d9f''),
      (''addLiquidity(address tokenA,address tokenB,uint256 amountADesired,uint256 amountBDesired,uint256 amountAMin,uint256 amountBMin,address to,uint256 deadline) returns (uint amountA, uint amountB, uint liquidity)'',
         ''0xe8e33700''),
      (''addLiquidityETH(address token,uint256 amountTokenDesired,uint256 amountTokenMin,uint256 amountETHMin,address to,uint256) returns (uint amountToken, uint amountETH, uint liquidity)'',
         ''0xf305d719''),
      (''removeLiquidity(address tokenA,address tokenB,uint256 liquidity,uint256 amountAMin,uint256 amountBMin,address to,uint256 deadline) returns (uint amountA, uint amountB)'',
         ''0xbaa2abde''),
      (''removeLiquidityETH(address token,uint256 liquidity,uint256 amountTokenMin,uint256 amountETHMin,address to,uint256 deadline) returns (uint amountToken, uint amountETH)'',
         ''0x02751cec''),
      (''removeLiquidityWithPermit(address tokenA,address tokenB,uint256 liquidity,uint256 amountAMin,uint256 amountBMin,address to,uint256 deadline,bool approveMax,uint8 v,bytes32 r,bytes32 s) returns (uint amountA, uint amountB)'',
         ''0x2195995c''),
      (''removeLiquidityETHWithPermit(address token,uint256 liquidity,uint256 amountTokenMin,uint256 amountETHMin,address to,uint256 deadline,bool approveMax,uint8 v,bytes32 r,bytes32 s) returns (uint amountToken, uint amountETH)'',
         ''0xded9382a''),
      (''removeLiquidityETHSupportingFeeOnTransferTokens(address token,uint256 liquidity,uint256 amountTokenMin,uint256 amountETHMin,address to,uint256 deadline) returns (uint amountETH)'',
         ''0xaf2979eb''),
      (''removeLiquidityETHWithPermitSupportingFeeOnTransferTokens(address token,uint256 liquidity,uint256 amountTokenMin,uint256 amountETHMin,address to,uint256 deadline,bool approveMax,uint8 v,bytes32 r,bytes32 s) returns (uint amountETH)'',
         ''0x5b0d5984''),
      (''balanceOf(address)'',
         ''0x70a08231''),
      (''transfer(address,uint256)'',
         ''0xa9059cbb''),
      (''createPair(address,address)'',
         ''0xc9c65396'')]"

definition swapCalldata :: string where
  "swapCalldata =
       ''0x38ed1739000000000000000000000000000000000000000000000000000000000000006400000000000000'' @
       ''0000000000000000000000000000000000000000000000000100000000000000000000000000000000000000'' @
       ''000000000000000000000000a0000000000000000000000000f39fd6e51aad88f6f4ce6ab8827279cfffb922'' @
       ''66000000000000000000000000000000000000000000000000000000006553f1000000000000000000000000'' @
       ''000000000000000000000000000000000000000002000000000000000000000000c02aaa39b223fe8d0a0e5c'' @
       ''4f27ead9083c756cc20000000000000000000000006b175474e89094c44da98b954eedeac495271d0f''"

definition swapCalldataDW :: string where
  "swapCalldataDW =
       ''0x38ed1739000000000000000000000000000000000000000000000000000000000000006400000000000000'' @
       ''0000000000000000000000000000000000000000000000000100000000000000000000000000000000000000'' @
       ''000000000000000000000000a0000000000000000000000000f39fd6e51aad88f6f4ce6ab8827279cfffb922'' @
       ''66000000000000000000000000000000000000000000000000000000006553f1000000000000000000000000'' @
       ''0000000000000000000000000000000000000000020000000000000000000000006b175474e89094c44da98b'' @
       ''954eedeac495271d0f000000000000000000000000c02aaa39b223fe8d0a0e5c4f27ead9083c756cc2''"

definition feeCalldata :: string where
  "feeCalldata =
       ''0x5c11d795000000000000000000000000000000000000000000000000000000000000006400000000000000'' @
       ''0000000000000000000000000000000000000000000000000100000000000000000000000000000000000000'' @
       ''000000000000000000000000a0000000000000000000000000f39fd6e51aad88f6f4ce6ab8827279cfffb922'' @
       ''66000000000000000000000000000000000000000000000000000000006553f1000000000000000000000000'' @
       ''000000000000000000000000000000000000000002000000000000000000000000c02aaa39b223fe8d0a0e5c'' @
       ''4f27ead9083c756cc20000000000000000000000006b175474e89094c44da98b954eedeac495271d0f''"

definition badSwapCalldata :: string where
  "badSwapCalldata =
       ''0x38ed17390000000000000000000000000000000000000000000000000000000000000064''"

definition transferFromCalldata :: string where
  "transferFromCalldata =
       ''0x23b872dd000000000000000000000000f39fd6e51aad88f6f4ce6ab8827279cfffb9226600000000000000'' @
       ''0000000000a478c2975ab1ea89e8196811f51a7b7ade33eb1100000000000000000000000000000000000000'' @
       ''00000000000000000000000064''"

definition pairSwapCalldata :: string where
  "pairSwapCalldata =
       ''0x022c0d9f000000000000000000000000000000000000000000000000000000000000005f00000000000000'' @
       ''00000000000000000000000000000000000000000000000000000000000000000000000000f39fd6e51aad88'' @
       ''f6f4ce6ab8827279cfffb9226600000000000000000000000000000000000000000000000000000000000000'' @
       ''800000000000000000000000000000000000000000000000000000000000000000''"

definition transferCalldata :: string where
  "transferCalldata =
       ''0xa9059cbb000000000000000000000000f39fd6e51aad88f6f4ce6ab8827279cfffb9226600000000000000'' @
       ''0000000000000000000000000000000000000000000000005f''"

definition balanceOfCalldata :: string where
  "balanceOfCalldata =
       ''0x70a08231000000000000000000000000f39fd6e51aad88f6f4ce6ab8827279cfffb92266''"

definition balance1000 :: string where
  "balance1000 =
       ''0x00000000000000000000000000000000000000000000000000000000000003e8''"

definition balance1080 :: string where
  "balance1080 =
       ''0x0000000000000000000000000000000000000000000000000000000000000438''"

definition swapTopic :: string where
  "swapTopic =
       ''0xd78ad95fa46c994b6551d0da85fc275fe613ce37657fb8d5e3d130840159d822''"

definition routerTopic :: string where
  "routerTopic =
       ''0x0000000000000000000000007a250d5630b4cf539739df2c5dacb4c659f2488d''"

definition userTopic :: string where
  "userTopic =
       ''0x000000000000000000000000f39fd6e51aad88f6f4ce6ab8827279cfffb92266''"

definition swapLogData :: string where
  "swapLogData =
       ''0x00000000000000000000000000000000000000000000000000000000000000000000000000000000000000'' @
       ''0000000000000000000000000000000000000000640000000000000000000000000000000000000000000000'' @
       ''00000000000000005f0000000000000000000000000000000000000000000000000000000000000000''"

definition swapLogData90 :: string where
  "swapLogData90 =
       ''0x00000000000000000000000000000000000000000000000000000000000000000000000000000000000000'' @
       ''00000000000000000000000000000000000000005a0000000000000000000000000000000000000000000000'' @
       ''00000000000000005f0000000000000000000000000000000000000000000000000000000000000000''"

definition swapLogDataDW :: string where
  "swapLogDataDW =
       ''0x00000000000000000000000000000000000000000000000000000000000000640000000000000000000000'' @
       ''0000000000000000000000000000000000000000000000000000000000000000000000000000000000000000'' @
       ''00000000000000005f0000000000000000000000000000000000000000000000000000000000000000''"

definition addCalldata :: string where
  "addCalldata =
       ''0xe8e337000000000000000000000000006b175474e89094c44da98b954eedeac495271d0f00000000000000'' @
       ''0000000000c02aaa39b223fe8d0a0e5c4f27ead9083c756cc200000000000000000000000000000000000000'' @
       ''000000000000000000000007d000000000000000000000000000000000000000000000000000000000000000'' @
       ''0100000000000000000000000000000000000000000000000000000000000007c60000000000000000000000'' @
       ''000000000000000000000000000000000000000001000000000000000000000000f39fd6e51aad88f6f4ce6a'' @
       ''b8827279cfffb92266000000000000000000000000000000000000000000000000000000006553f100''"

definition addReturndata :: string where
  "addReturndata =
       ''0x00000000000000000000000000000000000000000000000000000000000007d00000000000000000000000'' @
       ''0000000000000000000000000000000000000000010000000000000000000000000000000000000000000000'' @
       ''00000000000000002c''"

definition removeETHCalldata :: string where
  "removeETHCalldata =
       ''0x02751cec0000000000000000000000006b175474e89094c44da98b954eedeac495271d0f00000000000000'' @
       ''0000000000000000000000000000000000000000000000002c00000000000000000000000000000000000000'' @
       ''000000000000000000000007c600000000000000000000000000000000000000000000000000000000000000'' @
       ''01000000000000000000000000f39fd6e51aad88f6f4ce6ab8827279cfffb922660000000000000000000000'' @
       ''00000000000000000000000000000000006553f100''"

definition removeETHReturndata :: string where
  "removeETHReturndata =
       ''0x00000000000000000000000000000000000000000000000000000000000007d00000000000000000000000'' @
       ''000000000000000000000000000000000000000001''"

definition badRemoveCalldata :: string where
  "badRemoveCalldata =
       ''0xbaa2abde0000000000000000000000006b175474e89094c44da98b954eedeac495271d0f''"

definition pairSalt :: string where
  "pairSalt =
       ''0x7bda8b27e891f9687bd6d3312ab3f4f458e2cc91916429d721d617df7ac29fb8''"

definition weth :: string where
  "weth = ''0xC02aaA39b223FE8D0A0e5C4F27eAD9083C756Cc2''"

definition dai :: string where
  "dai = ''0x6B175474E89094C44Da98b954EedeAC495271d0F''"

definition router :: string where
  "router = ''0x7a250d5630B4cF539739dF2C5dAcb4c659F2488D''"

definition trader :: string where
  "trader = ''0xf39Fd6e51aad88F6F4ce6aB8827279cffFb92266''"

definition pairAddress :: string where
  "pairAddress = ''0xA478c2975Ab1Ea89e8196811F51A7B7Ade33eB11''"

definition hexValue :: "string \<Rightarrow> int" where
  "hexValue h = int (addressValue h)"

definition consumeNode :: "DecoderState \<Rightarrow> DecoderInput option \<Rightarrow> (error + unit) \<times> DecoderState" where
  "consumeNode state x =
     (case x of None \<Rightarrow> (Inl TypeError, state) | Some v \<Rightarrow> (Inr (), consume state v))"

definition tabulated :: "('k \<times> 'v) list \<Rightarrow> error \<Rightarrow> 'k \<Rightarrow> error + 'v" where
  "tabulated table err k = (case map_of table k of None \<Rightarrow> Inl err | Some v \<Rightarrow> Inr v)"

definition sampleAddInputs :: addInputs where
  "sampleAddInputs =
     \<lparr>ai_tokenA = Some dai, ai_tokenB = Some weth, ai_token = None,
      ai_amountAMin = Some 1990, ai_amountBMin = Some 1, ai_amountTokenMin = None,
      ai_amountETHMin = None, ai_to = trader\<rparr>"

definition sampleAddOutputs :: addOutputs where
  "sampleAddOutputs =
     \<lparr>ao_amountA = Some 2000, ao_amountB = Some 1, ao_amountToken = None,
      ao_amountETH = None, ao_liquidity = Some 44\<rparr>"

definition sampleEnv :: env where
  "sampleEnv =
     \<lparr>sighash = (\<lambda>name. case map_of selectors name of None \<Rightarrow> ''0x00000000'' | Some s \<Rightarrow> s),
      topicHash = (\<lambda>name. swapTopic),
      solidityKeccak256 = (\<lambda>a b. tabulated [((Some dai, Some weth), pairSalt)] InvalidArgument (a, b)),
      getCreate2Address = (\<lambda>f salt h. tabulated
         [((''0x5C69bEe701ef814a2B6a3EDD4B1652CB9cc5aA6f'', pairSalt,
            ''0x96e8ac4277198ff8b6f785478aa9a39f403cb768dd02cbee326c3e7da348845f''), pairAddress)]
         InvalidArgument (f, salt, h)),
      bigNumberFrom = (\<lambda>x. case x of None \<Rightarrow> Inl InvalidArgument | Some h \<Rightarrow> Inr (hexValue h)),
      parseLog = (\<lambda>l. tabulated
         [(swapLogData, \<lparr>amount0In = 0, amount1In = 100, amount0Out = 95, amount1Out = 0\<rparr>),
          (swapLogData90, \<lparr>amount0In = 0, amount1In = 90, amount0Out = 95, amount1Out = 0\<rparr>),
          (swapLogDataDW, \<lparr>amount0In = 100, amount1In = 0, amount0Out = 95, amount1Out = 0\<rparr>)]
         DecodeError (l_data l)),
      abiSwapInputs = (\<lambda>fragment. tabulated
         [(swapCalldata, \<lparr>si_amountIn = Some 100, si_amountOutMin = Some 1, si_amountOut = None,
             si_amountInMax = None, si_path = [weth, dai], si_to = trader\<rparr>),
          (swapCalldataDW, \<lparr>si_amountIn = Some 100, si_amountOutMin = Some 1, si_amountOut = None,
             si_amountInMax = None, si_path = [dai, weth], si_to = trader\<rparr>),
          (feeCalldata, \<lparr>si_amountIn = Some 100, si_amountOutMin = Some 1, si_amountOut = None,
             si_amountInMax = None, si_path = [weth, dai], si_to = trader\<rparr>)]
         DecodeError),
      abiSwapOutputs = (\<lambda>fragment. tabulated
         [(''0x'', \<lparr>so_amounts = []\<rparr>)] DecodeError),
      consumeAll = consumeNode,
      consumeTransfer = consumeNode,
      consumeTransferFrom = consumeNode,
      abiAddInputs = (\<lambda>fragment. tabulated [(addCalldata, sampleAddInputs)] DecodeError),
      abiAddOutputs = (\<lambda>fragment. tabulated [(addReturndata, sampleAddOutputs)] DecodeError),
      abiRemoveInputs = (\<lambda>fragment. tabulated
         [(removeETHCalldata, \<lparr>ri_tokenA = None, ri_tokenB = None, ri_token = Some dai,
             ri_liquidity = Some 44, ri_to = trader\<rparr>)]
         DecodeError),
      abiRemoveOutputs = (\<lambda>fragment. tabulated
         [(removeETHReturndata, \<lparr>ro_amountA = None, ro_amountB = None, ro_amountToken = Some 2000,
             ro_amountETH = Some 1\<rparr>)]
         DecodeError),
      handleTransferFrom = markHandled,
      handleTransfer = markHandled,
      handleRecursively = markHandled,
      requestTokenMetadataOf = (\<lambda>state token. (Inr (), state))\<rparr>"

definition emptyState :: DecoderState where
  "emptyState = \<lparr>consumed = {}, pendingMetadata = {}\<rparr>"

definition swapLog :: "string \<Rightarrow> string \<Rightarrow> log" where
  "swapLog emitter payload =
     \<lparr>l_address = emitter, l_topics = [swapTopic, routerTopic, userTopic], l_data = payload\<rparr>"

definition transferCall :: DecoderInput where
  "transferCall = DecoderInput ''0.1.0'' ''call'' pairAddress dai 0 transferCalldata None None None"

definition pairSwapCall :: DecoderInput where
  "pairSwapCall =
     DecoderInput ''0.1'' ''call'' router pairAddress 0 pairSwapCalldata (Some ''0x'') None
       (Some [transferCall])"

definition transferFromCall :: DecoderInput where
  "transferFromCall =
     DecoderInput ''0.0'' ''call'' router weth 0 transferFromCalldata None None None"

definition swapNode :: "string \<Rightarrow> string \<Rightarrow> string option \<Rightarrow> log list option \<Rightarrow> DecoderInput" where
  "swapNode to calldata returndata logs =
     DecoderInput ''0'' ''call'' trader to 0 calldata returndata logs
       (Some [transferFromCall, pairSwapCall])"

definition routerLower :: string where
  "routerLower = ''0x7a250d5630b4cf539739df2c5dacb4c659f2488d''"

definition pairLower :: string where
  "pairLower = ''0xa478c2975ab1ea89e8196811f51a7b7ade33eb11''"

definition firstRouter :: routerInfo where
  "firstRouter =
     \<lparr>factory = ''0x5C69bEe701ef814a2B6a3EDD4B1652CB9cc5aA6f'',
      initcodeHash = ''0x96e8ac4277198ff8b6f785478aa9a39f403cb768dd02cbee326c3e7da348845f''\<rparr>"

definition swapExactTokensForTokens :: "string \<times> swapMetadata" where
  "swapExactTokensForTokens =
     (''swapExactTokensForTokens(uint256 amountIn,uint256 amountOutMin,address[] memory path,address to,uint256 deadline) returns (uint[] memory amounts)'',
      \<lparr>exactIn = True, sm_input = Tokens, sm_output = Tokens, fee = False\<rparr>)"

definition swapExactTokensForTokensFee :: "string \<times> swapMetadata" where
  "swapExactTokensForTokensFee =
     (''swapExactTokensForTokensSupportingFeeOnTransferTokens(uint256 amountIn,uint256 amountOutMin,address[] memory path,address to,uint256 deadline)'',
      \<lparr>exactIn = True, sm_input = Tokens, sm_output = Tokens, fee = True\<rparr>)"

definition sampleInputs :: "string list \<Rightarrow> swapInputs" where
  "sampleInputs path =
     \<lparr>si_amountIn = Some 100, si_amountOutMin = Some 1, si_amountOut = None,
      si_amountInMax = None, si_path = path, si_to = trader\<rparr>"

definition balanceOfCall :: "string \<Rightarrow> string \<Rightarrow> DecoderInput" where
  "balanceOfCall path balance =
     DecoderInput path ''staticcall'' router dai 0 balanceOfCalldata (Some balance) None None"

definition feeSwapNode :: "string option \<Rightarrow> DecoderInput" where
  "feeSwapNode returndata =
     DecoderInput ''0'' ''call'' trader router 0 feeCalldata returndata None
       (Some [transferFromCall, balanceOfCall ''0.2'' balance1000, pairSwapCall,
              balanceOfCall ''0.3'' balance1080])"

definition addNode :: DecoderInput where
  "addNode = DecoderInput ''0'' ''call'' trader router 0 addCalldata (Some addReturndata) None None"

definition addResult :: UniswapV2RouterAddLiquidityResult where
  "addResult =
     \<lparr>al_type = ''uniswap-v2-router-add-liquidity'', al_actor = trader, al_recipient = trader,
      al_pool = None, al_tokenA = Some dai, al_tokenB = Some weth,
      al_amountADesired = Some 1990, al_amountBDesired = Some 1,
      al_amountAMin = Some 1990, al_amountBMin = Some 1,
      al_amountA = None, al_amountB = None, al_liquidity = None\<rparr>"

definition burnCalldata :: string where
  "burnCalldata = ''0x89afcb440000000000000000000000007a250d5630b4cf539739df2c5dacb4c659f2488d''"

definition withdrawCalldata :: string where
  "withdrawCalldata = ''0x2e1a7d4d0000000000000000000000000000000000000000000000000000000000000001''"

definition subcall :: "string \<Rightarrow> string \<Rightarrow> string \<Rightarrow> TraceEntry" where
  "subcall path to calldata = TraceEntry path ''call'' ''call'' router to calldata (Some ''0x'') []"

definition addSubcalls :: "TraceEntry list" where
  "addSubcalls =
     [subcall ''0.0'' dai transferFromCalldata, subcall ''0.1'' weth transferFromCalldata,
      subcall ''0.2'' pairAddress burnCalldata]"

definition removeETHSubcalls :: "TraceEntry list" where
  "removeETHSubcalls =
     [subcall ''0.0'' pairAddress transferFromCalldata, subcall ''0.1'' pairAddress burnCalldata,
      subcall ''0.2'' dai transferCalldata, subcall ''0.3'' weth withdrawCalldata,
      subcall ''0.4'' trader ''0x'']"

definition removeNode :: "string \<Rightarrow> string option \<Rightarrow> TraceEntry list \<Rightarrow> TraceEntry" where
  "removeNode calldata returndata children =
     TraceEntry ''0'' ''call'' ''call'' trader router calldata returndata children"

definition removeETHInputs :: removeInputs where
  "removeETHInputs =
     \<lparr>ri_tokenA = None, ri_tokenB = None, ri_token = Some dai, ri_liquidity = Some 44,
      ri_to = trader\<rparr>"

definition removeETHOutputs :: removeOutputs where
  "removeETHOutputs =
     \<lparr>ro_amountA = None, ro_amountB = None, ro_amountToken = Some 2000, ro_amountETH = Some 1\<rparr>"

definition emptyHandled :: DecodeState where
  "emptyHandled = \<lparr>handled = {}\<rparr>"

definition swapRecord :: "string \<Rightarrow> string \<Rightarrow> int option \<Rightarrow> int option \<Rightarrow> SwapAction" where
  "swapRecord tin tout ain aout =
     \<lparr>sa_type = ''uniswap-v2-router-swap'', operator = trader, recipient = trader,
      tokenIn = Some tin, tokenOut = Some tout, amountIn = ain, amountOutMin = Some 1,
      amountOut = aout, amountInMax = None\<rparr>"

section \<open>Properties of the pair address\<close>

lemma getTokens_commute:
  "getTokens (Some a) (Some b) = getTokens (Some b) (Some a)"
proof (cases "a = b")
  case True
  then show ?thesis by simp
next
  case False
  then have "a < b \<or> b < a" by auto
  then show ?thesis
  proof
    assume "a < b"
    then have "\<not> b < a" by auto
    with \<open>a < b\<close> show ?thesis by (simp add: getTokens_def)
  next
    assume "b < a"
    then have "\<not> a < b" by auto
    with \<open>b < a\<close> show ?thesis by (simp add: getTokens_def)
  qed
qed

text \<open>
  C5. The derived pair address does not depend on the order of its two token arguments:
  for every factory, init-code hash and token addresses A and B,
  computePairAddress(f, h, A, B) is computePairAddress(f, h, B, A), whatever the two hash
  functions are (an exception they raise is the same on both sides).
\<close>

theorem computePairAddress_order_independent:
  "computePairAddress e f h (Some A) (Some B) = computePairAddress e f h (Some B) (Some A)"
  by (simp add: computePairAddress_def getTokens_commute)

text \<open>
  C6. The claim says token0 is the address with the smaller unsigned value whatever the letter
  case. getTokens compares the strings: for the checksummed addresses 0xE41d... and 0xdAC1...
  it puts 0xE41d... first, since the code of E is below the code of d, although as a number
  0xdAC1... is the smaller of the two.
\<close>

theorem getTokens_mixed_case_not_numeric:
  "getTokens (Some ''0xdAC17F958D2ee523a2206206994597C13D831ec7'')
             (Some ''0xE41d2489571d322189246DaFA5ebDe1F4699F498'')
     = (Some ''0xE41d2489571d322189246DaFA5ebDe1F4699F498'',
        Some ''0xdAC17F958D2ee523a2206206994597C13D831ec7'')
   \<and> addressValue ''0xdAC17F958D2ee523a2206206994597C13D831ec7''
       < addressValue ''0xE41d2489571d322189246DaFA5ebDe1F4699F498''"
  by (simp add: getTokens_def addressValue_def hexDigit_def)

section \<open>Address matching\<close>

lemma find_skip: "\<not> P x \<Longrightarrow> find P (xs @ x # ys) = find P (xs @ ys)"
  by (induction xs) auto

lemma pullFromEvents_skip:
  assumes "firstPairAddress e info path = Inr fp"
    and "lastPairAddress e info path = Inr lp"
    and "l_address l \<noteq> fp" and "l_address l \<noteq> lp"
  shows "pullFromEvents e info (DecoderInput i t f to v cd rd (Some (pre @ l # post)) ch) path r
       = pullFromEvents e info (DecoderInput i t f to v cd rd (Some (pre @ post)) ch) path r"
  using assms
  by (simp add: pullFromEvents_def firstPairAddress_def lastPairAddress_def Let_def bindE_def
        case_prod_beta find_skip cong: sum.case_cong option.case_cong)

lemma consumeForSwap_skip:
  "consumeForSwap e s (DecoderInput i t f to v cd rd (Some (pre @ l # post)) ch) m
     = consumeForSwap e s (DecoderInput i t f to v cd rd (Some (pre @ post)) ch) m"
  by (simp add: consumeForSwap_def consumeTokenInputSwap_def consumeETHInputSwap_def
        consumeSwaps_def consumeETHOutputSwap_def consume_def cong: if_cong)

lemma pullFromCalldata_skip:
  "pullFromCalldata m (DecoderInput i t f to v cd rd (Some (pre @ l # post)) ch) inputs r
     = pullFromCalldata m (DecoderInput i t f to v cd rd (Some (pre @ post)) ch) inputs r"
  by (simp add: pullFromCalldata_def cong: if_cong)

lemma pullFromReturndata_skip:
  "pullFromReturndata e m (DecoderInput i t f to v cd rd (Some (pre @ l # post)) ch) out
     = pullFromReturndata e m (DecoderInput i t f to v cd rd (Some (pre @ post)) ch) out"
  by (rule ext) (simp add: pullFromReturndata_def cong: if_cong option.case_cong)

lemma swapDecodeCall_skip:
  assumes "uniswapsByRouter to = Some info"
    and "find (\<lambda>(name, func). hasSelector e cd name) swapFunctions = Some (name, md)"
    and "abiSwapInputs e name cd = Inr inputs"
    and "firstPairAddress e info (si_path inputs) = Inr fp"
    and "lastPairAddress e info (si_path inputs) = Inr lp"
    and "l_address l \<noteq> fp" and "l_address l \<noteq> lp"
  shows "swapDecodeCall e st (DecoderInput i t f to v cd rd (Some (pre @ l # post)) ch)
       = swapDecodeCall e st (DecoderInput i t f to v cd rd (Some (pre @ post)) ch)"
  using assms(1-3)
  by (simp add: swapDecodeCall_def isConsumed_def pullFromEvents_skip [OF assms(4-7)]
        consumeForSwap_skip pullFromCalldata_skip pullFromReturndata_skip
        decodeFunctionWithFragment_def
        split: sum.splits option.splits)

lemma routers_lower_distinct:
  "toLowerCase ''0x7a250d5630B4cF539739dF2C5dAcb4c659F2488D''
     \<noteq> toLowerCase ''0xd9e1cE17f2641f24aE83637ab66a2cca9C378B9F''"
  by (simp add: toLowerCase_def)

lemma case_variant_unregistered:
  assumes "differsOnlyInCase a r" and "uniswapsByRouter r = Some info"
  shows "uniswapsByRouter a = None"
  using assms routers_lower_distinct
  by (auto simp: uniswapsByRouter_def differsOnlyInCase_def split: if_splits)

lemma swapDecodeCall_unknown_router:
  "uniswapsByRouter (n_to node) = None \<Longrightarrow> swapDecodeCall e state node = (Inr None, state)"
  by (simp add: swapDecodeCall_def)

text \<open>
  C10. Address matching in the swap decoder is exact string equality, with no case
  normalisation. A node whose \<open>to\<close> differs from a registered router address only in the case
  of its hexadecimal letters is not decoded: \<open>decodeCall\<close> returns null and leaves the state as
  it was. A Swap log whose emitting address differs from a derived pair address only in letter
  case, and is neither of the two derived addresses, is ignored: the decode of the node is the
  decode of the node without that log, so the log contributes no amount to the record.
\<close>

theorem address_matching_is_exact:
  "(differsOnlyInCase (n_to node) r \<and> uniswapsByRouter r = Some info0
      \<longrightarrow> swapDecodeCall e state node = (Inr None, state))
   \<and> (uniswapsByRouter to = Some info
        \<and> find (\<lambda>(name, func). hasSelector e cd name) swapFunctions = Some (name, md)
        \<and> abiSwapInputs e name cd = Inr inputs
        \<and> firstPairAddress e info (si_path inputs) = Inr fp
        \<and> lastPairAddress e info (si_path inputs) = Inr lp
        \<and> (differsOnlyInCase (l_address l) fp \<or> differsOnlyInCase (l_address l) lp)
        \<and> l_address l \<noteq> fp \<and> l_address l \<noteq> lp
      \<longrightarrow> swapDecodeCall e st (DecoderInput i t f to v cd rd (Some (pre @ l # post)) ch)
            = swapDecodeCall e st (DecoderInput i t f to v cd rd (Some (pre @ post)) ch))"
proof (intro conjI impI)
  assume "differsOnlyInCase (n_to node) r \<and> uniswapsByRouter r = Some info0"
  then have "uniswapsByRouter (n_to node) = None"
    by (blast intro: case_variant_unregistered)
  then show "swapDecodeCall e state node = (Inr None, state)"
    by (rule swapDecodeCall_unknown_router)
next
  assume h: "uniswapsByRouter to = Some info
        \<and> find (\<lambda>(name, func). hasSelector e cd name) swapFunctions = Some (name, md)
        \<and> abiSwapInputs e name cd = Inr inputs
        \<and> firstPairAddress e info (si_path inputs) = Inr fp
        \<and> lastPairAddress e info (si_path inputs) = Inr lp
        \<and> (differsOnlyInCase (l_address l) fp \<or> differsOnlyInCase (l_address l) lp)
        \<and> l_address l \<noteq> fp \<and> l_address l \<noteq> lp"
  then show "swapDecodeCall e st (DecoderInput i t f to v cd rd (Some (pre @ l # post)) ch)
            = swapDecodeCall e st (DecoderInput i t f to v cd rd (Some (pre @ post)) ch)"
    by (intro swapDecodeCall_skip) blast+
qed

theorem address_matching_is_exact_witness:
  "differsOnlyInCase routerLower router
   \<and> swapDecodeCall sampleEnv emptyState (swapNode routerLower swapCalldata None None)
       = (Inr None, emptyState)
   \<and> differsOnlyInCase pairLower pairAddress
   \<and> swapDecodeCall sampleEnv emptyState
        (swapNode router swapCalldata None (Some [swapLog pairLower swapLogData]))
       = swapDecodeCall sampleEnv emptyState (swapNode router swapCalldata None (Some []))
   \<and> amountOut (the (projr (fst (swapDecodeCall sampleEnv emptyState
        (swapNode router swapCalldata None (Some [swapLog pairLower swapLogData])))))) = None"
proof -
  have a1: "differsOnlyInCase (n_to (swapNode routerLower swapCalldata None None)) router
      \<and> uniswapsByRouter router = Some firstRouter"
    by code_simp
  have a2: "uniswapsByRouter router = Some firstRouter
        \<and> find (\<lambda>(name, func). hasSelector sampleEnv swapCalldata name) swapFunctions
            = Some swapExactTokensForTokens
        \<and> abiSwapInputs sampleEnv (fst swapExactTokensForTokens) swapCalldata
            = Inr \<lparr>si_amountIn = Some 100, si_amountOutMin = Some 1, si_amountOut = None,
                   si_amountInMax = None, si_path = [weth, dai], si_to = trader\<rparr>
        \<and> firstPairAddress sampleEnv firstRouter [weth, dai] = Inr pairAddress
        \<and> lastPairAddress sampleEnv firstRouter [weth, dai] = Inr pairAddress
        \<and> (differsOnlyInCase (l_address (swapLog pairLower swapLogData)) pairAddress
             \<or> differsOnlyInCase (l_address (swapLog pairLower swapLogData)) pairAddress)
        \<and> l_address (swapLog pairLower swapLogData) \<noteq> pairAddress
        \<and> l_address (swapLog pairLower swapLogData) \<noteq> pairAddress"
    by code_simp
  have a3: "differsOnlyInCase routerLower router \<and> differsOnlyInCase pairLower pairAddress"
    by code_simp
  have a4: "amountOut (the (projr (fst (swapDecodeCall sampleEnv emptyState
        (swapNode router swapCalldata None (Some [])))))) = None"
    by code_simp
  note inst = address_matching_is_exact [of "swapNode routerLower swapCalldata None None" router
      firstRouter sampleEnv emptyState router firstRouter swapCalldata
      "fst swapExactTokensForTokens" "snd swapExactTokensForTokens"
      "\<lparr>si_amountIn = Some 100, si_amountOutMin = Some 1, si_amountOut = None,
                   si_amountInMax = None, si_path = [weth, dai], si_to = trader\<rparr>"
      pairAddress pairAddress "swapLog pairLower swapLogData" emptyState
      "''0''" "''call''" trader 0 None "[]" "[]" "Some [transferFromCall, pairSwapCall]"]
  from inst a1 a2 a3 a4 show ?thesis
    by (simp add: swapNode_def)
qed

section \<open>Consumption\<close>

lemma addDecodeCall_consumed_unchanged:
  "consumed (snd (addDecodeCall e state node)) = consumed state"
  by (simp add: addDecodeCall_def requestTokenMetadata_def Let_def
      split: option.splits sum.splits prod.splits)

text \<open>
  C1. The claim says that once a decoder's \<open>decodeCall\<close> returns a record for a node, the
  node's path is consumed and every later \<open>decodeCall\<close> on the node returns null. The swap
  decoder does this (last conjunct). The add-liquidity decoder tests \<open>isConsumed\<close> but never
  consumes: on the sample addLiquidity call it returns its record, the node's path is not in
  the consumed set afterwards, and a second \<open>decodeCall\<close> returns the record again.
\<close>

theorem addLiquidity_claims_without_consuming:
  "addDecodeCall sampleEnv emptyState addNode
     = (Inr (Some addResult), \<lparr>consumed = {}, pendingMetadata = {None, Some weth, Some dai}\<rparr>)
   \<and> \<not> isConsumed \<lparr>consumed = {}, pendingMetadata = {None, Some weth, Some dai}\<rparr> addNode
   \<and> fst (addDecodeCall sampleEnv
            \<lparr>consumed = {}, pendingMetadata = {None, Some weth, Some dai}\<rparr> addNode)
       = Inr (Some addResult)
   \<and> fst (swapDecodeCall sampleEnv
            (snd (swapDecodeCall sampleEnv emptyState (swapNode router swapCalldata None None)))
            (swapNode router swapCalldata None None)) = Inr None"
  by code_simp

lemma swapDecodeCall_decode_error:
  assumes "\<not> isConsumed state node" and "n_type node = ''call''"
    and "uniswapsByRouter (n_to node) = Some info"
    and "find (\<lambda>(name, func). hasSelector e (n_calldata node) name) swapFunctions = Some (name, md)"
    and "abiSwapInputs e name (n_calldata node) = Inl err"
  shows "swapDecodeCall e state node = (Inl err, state)"
  using assms
  by (simp add: swapDecodeCall_def decodeFunctionWithFragment_def)

lemma removeDecode_decode_error:
  assumes "te_path node \<notin> handled state" and "te_type node = ''call''"
    and "find (\<lambda>(name, func). sighash e name = take 10 (te_input node)) addLiquidityFunctions
           = Some (name, decoder)"
    and "abiRemoveInputs e name (te_input node) = Inl err"
  shows "removeDecode e node state
           = (Inl err, state\<lparr>handled := insert (te_path node) (handled state)\<rparr>)"
  using assms
  by (simp add: removeDecode_def decodeFunctionWithFragment_def Let_def)

text \<open>
  C4. The claim says that a node whose selector matches but whose payload fails ABI decoding
  is left unclaimed. The swap decoder decodes before it consumes, and the DecodeError leaves
  the state as it was (second conjunct). The remove-liquidity decoder sets
  \<open>state.handled[node.path]\<close> before it decodes: on a removeLiquidity call with a truncated
  payload the DecodeError leaves the path of the node in the handled set.
\<close>

theorem removeLiquidity_marks_before_decoding:
  "removeDecode sampleEnv (removeNode badRemoveCalldata None []) emptyHandled
     = (Inl DecodeError, \<lparr>handled = {''0''}\<rparr>)
   \<and> swapDecodeCall sampleEnv emptyState (swapNode router badSwapCalldata None None)
     = (Inl DecodeError, emptyState)"
  by code_simp

section \<open>Liquidity records\<close>

text \<open>
  C9. The claim says the record of a decoded add-liquidity call carries the pool address and
  the amounts amountA, amountB and liquidity of the return data. The record \<open>decodeCall\<close>
  builds has none of them: on the sample addLiquidity call, whose return data decodes to the
  amounts 2000, 1 and 44, the fields \<open>pool\<close>, \<open>amountA\<close>, \<open>amountB\<close> and \<open>liquidity\<close> of the
  record are undefined. The routine \<open>decodeAddLiquidity\<close>, which \<open>decodeCall\<close> never calls,
  returns the pool and these amounts on the same inputs and outputs (last conjunct).
\<close>

theorem addLiquidity_record_lacks_pool_and_amounts:
  "fst (addDecodeCall sampleEnv emptyState addNode) = Inr (Some addResult)
   \<and> al_pool addResult = None \<and> al_amountA addResult = None \<and> al_amountB addResult = None
   \<and> al_liquidity addResult = None
   \<and> abiAddInputs sampleEnv (fst (addFunctions ! 0)) addCalldata = Inr sampleAddInputs
   \<and> abiAddOutputs sampleEnv (fst (addFunctions ! 0)) addReturndata = Inr sampleAddOutputs
   \<and> ao_amountA sampleAddOutputs = Some 2000 \<and> ao_amountB sampleAddOutputs = Some 1
   \<and> ao_liquidity sampleAddOutputs = Some 44
   \<and> fst (decodeAddLiquidity sampleEnv emptyHandled sampleAddInputs (Some sampleAddOutputs)
            addSubcalls)
       = Inr (pairAddress, Some dai, Some weth, Some 2000, Some 1, Some 44, trader)"
  by code_simp

section \<open>Missing sub-calls of removeLiquidityETH\<close>

lemma andThen_success: "fst m = Inr a \<Longrightarrow> andThen m f = f a (snd m)"
  by (cases m) (simp add: andThen_def)

lemma andThen_raises: "fst m = Inl err \<Longrightarrow> fst (andThen m f) = Inl err"
  by (cases m) (simp add: andThen_def)

lemma andThen_isl: "(\<And>a s. isl (fst (f a s))) \<Longrightarrow> isl (fst (andThen m f))"
  by (cases m) (auto simp: andThen_def split: sum.splits)

lemma andThen_Inr: "andThen (Inr a, s) f = f a s"
  by (simp add: andThen_def)

lemma andThen_Inl: "andThen (Inl err, s) f = (Inl err, s)"
  by (simp add: andThen_def)

lemma at_in_range: "0 \<le> i \<Longrightarrow> i < int (length xs) \<Longrightarrow> at xs i = Some (xs ! nat i)"
  by (simp add: at_def)

lemma at_out_of_range: "int (length xs) \<le> i \<Longrightarrow> at xs i = None"
  by (simp add: at_def)

lemma removeDecode_removeLiquidityETH:
  assumes "te_path node \<notin> handled state" and "te_type node = ''call''"
    and "sighash e ''removeLiquidity(address tokenA,address tokenB,uint256 liquidity,uint256 amountAMin,uint256 amountBMin,address to,uint256 deadline) returns (uint amountA, uint amountB)''
           \<noteq> take 10 (te_input node)"
    and "sighash e ''removeLiquidityETH(address token,uint256 liquidity,uint256 amountTokenMin,uint256 amountETHMin,address to,uint256 deadline) returns (uint amountToken, uint amountETH)''
           = take 10 (te_input node)"
  shows "removeDecode e node state =
     (let state1 = state\<lparr>handled := insert (te_path node) (handled state)\<rparr> in
      case decodeFunctionWithFragment (abiRemoveInputs e) (abiRemoveOutputs e)
             (te_input node) (te_output node)
             ''removeLiquidityETH(address token,uint256 liquidity,uint256 amountTokenMin,uint256 amountETHMin,address to,uint256 deadline) returns (uint amountToken, uint amountETH)'' of
        Inl err \<Rightarrow> (Inl err, state1)
      | Inr (inputs, outputs) \<Rightarrow>
          andThen (decodeRemoveLiquidityETH e node state1 inputs outputs
                     (filter (\<lambda>v. te_type v = ''call'' \<and> te_variant v = ''call'') (te_children node)))
            (\<lambda>(pool, tokenA, tokenB, amountA, amountB, liquidity, to) s2.
              andThen (requestTokenMetadataOf e s2 tokenA) (\<lambda>_ s3.
              andThen (requestTokenMetadataOf e s3 tokenB) (\<lambda>_ s4.
              andThen (requestTokenMetadataOf e s4 (Some pool)) (\<lambda>_ s5.
                (Inr (Some \<lparr>rl_type = ''uniswap-v2-router-remove-liquidity'',
                            rl_actor = te_from node, rl_recipient = to, rl_pool = pool,
                            rl_tokenA = tokenA, rl_tokenB = tokenB, rl_amountA = amountA,
                            rl_amountB = amountB, rl_liquidity = liquidity\<rparr>), s5))))))"
  using assms
  by (simp add: removeDecode_def addLiquidityFunctions_def Let_def split: sum.splits prod.splits)

lemma decodeRemoveLiquidityETH_short:
  assumes "length subcalls < 5"
  shows "isl (fst (decodeRemoveLiquidityETH e node state inputs outputs subcalls))"
  unfolding decodeRemoveLiquidityETH_def
  apply (rule andThen_isl)
  apply (rule andThen_isl)
  apply (rule andThen_isl)
  using assms
  apply (simp add: at_out_of_range markHandled_def andThen_Inl)
  done

lemma decodeRemoveLiquidityETH_full:
  assumes "5 \<le> length subcalls"
    and "\<And>s x. fst (handleTransferFrom e s (Some x)) = Inr ()"
    and "\<And>s x. fst (handleTransfer e s (Some x)) = Inr ()"
    and "\<And>s x. fst (handleRecursively e s (Some x)) = Inr ()"
  shows "fst (decodeRemoveLiquidityETH e node state inputs (Some outputs) subcalls)
       = Inr (te_to (subcalls ! 0), ri_token inputs, Some ''0xeeeeeeeeeeeeeeeeeeeeeeeeeeeeeeeeeeeeeeee'',
              ro_amountToken outputs, ro_amountETH outputs, ri_liquidity inputs, ri_to inputs)"
proof -
  from assms(1) have "at subcalls 0 = Some (subcalls ! 0)"
    by (cases subcalls) (simp_all add: at_def)
  with assms(1) show ?thesis
    by (simp add: decodeRemoveLiquidityETH_def handleRemoveLiquidity_def andThen_success
          assms(2-4) at_in_range markHandled_def readProp_def bindE_def andThen_Inr)
qed

lemma decodeRemoveLiquidityETH_short_TypeError:
  assumes "length subcalls < 5"
    and "\<And>s. fst (handleTransferFrom e s (at subcalls 0)) = Inr ()"
    and "\<And>s. fst (handleRecursively e s (at subcalls 1)) = Inr ()"
    and "\<And>s. fst (handleTransfer e s (at subcalls 2)) = Inr ()"
    and "\<And>s. fst (handleRecursively e s (at subcalls 3)) = Inr ()"
  shows "fst (decodeRemoveLiquidityETH e node state inputs outputs subcalls) = Inl TypeError"
  using assms(1)
  by (simp add: decodeRemoveLiquidityETH_def handleRemoveLiquidity_def andThen_success
        assms(2-5) at_out_of_range markHandled_def andThen_Inl)

text \<open>
  C3 (as stated). The claim says that the decode of a removeLiquidityETH node with fewer than
  five nested sub-calls raises nothing and returns a record. On the sample removeLiquidityETH
  call with its first four sub-calls only, \<open>subcalls[4].path\<close> is read on \<open>undefined\<close> and the
  decode raises a TypeError.
\<close>

theorem removeLiquidityETH_four_subcalls_raises:
  "fst (removeDecode sampleEnv
          (removeNode removeETHCalldata (Some removeETHReturndata) (take 4 removeETHSubcalls))
          emptyHandled) = Inl TypeError"
  by code_simp

text \<open>
  C3 (amended). For every call node that is not yet handled and whose selector is the one of
  removeLiquidityETH (and not the one of removeLiquidity, which is tried first):
  \<^item> with fewer than five nested call sub-calls the decode raises and returns no record,
    whatever the ABI coder and the handlers do;
  \<^item> with fewer than five, if the payload decodes and the handlers raise nothing on what they
    are given (\<open>subcalls[0]\<close> to \<open>subcalls[3]\<close>), the error is the TypeError of reading
    \<open>subcalls[4].path\<close>;
  \<^item> with at least five, if inputs and outputs decode, the handlers raise nothing on a
    sub-call and the request for token metadata raises nothing, the decode returns the record
    with the pool of the first sub-call, the token and the native-currency placeholder, the
    two amounts of the outputs and the liquidity of the inputs.
\<close>

theorem removeLiquidityETH_needs_five_subcalls:
  assumes "te_path node \<notin> handled state" and "te_type node = ''call''"
    and "sighash e ''removeLiquidity(address tokenA,address tokenB,uint256 liquidity,uint256 amountAMin,uint256 amountBMin,address to,uint256 deadline) returns (uint amountA, uint amountB)''
           \<noteq> take 10 (te_input node)"
    and "sighash e ''removeLiquidityETH(address token,uint256 liquidity,uint256 amountTokenMin,uint256 amountETHMin,address to,uint256 deadline) returns (uint amountToken, uint amountETH)''
           = take 10 (te_input node)"
    and "subcalls = filter (\<lambda>v. te_type v = ''call'' \<and> te_variant v = ''call'') (te_children node)"
  shows "(length subcalls < 5 \<longrightarrow> isl (fst (removeDecode e node state)))
       \<and> (length subcalls < 5
            \<and> decodeFunctionWithFragment (abiRemoveInputs e) (abiRemoveOutputs e)
                  (te_input node) (te_output node)
                  ''removeLiquidityETH(address token,uint256 liquidity,uint256 amountTokenMin,uint256 amountETHMin,address to,uint256 deadline) returns (uint amountToken, uint amountETH)''
                = Inr (ins, outs)
            \<and> (\<forall>s. fst (handleTransferFrom e s (at subcalls 0)) = Inr ())
            \<and> (\<forall>s. fst (handleRecursively e s (at subcalls 1)) = Inr ())
            \<and> (\<forall>s. fst (handleTransfer e s (at subcalls 2)) = Inr ())
            \<and> (\<forall>s. fst (handleRecursively e s (at subcalls 3)) = Inr ())
          \<longrightarrow> fst (removeDecode e node state) = Inl TypeError)
       \<and> (5 \<le> length subcalls
            \<and> decodeFunctionWithFragment (abiRemoveInputs e) (abiRemoveOutputs e)
                  (te_input node) (te_output node)
                  ''removeLiquidityETH(address token,uint256 liquidity,uint256 amountTokenMin,uint256 amountETHMin,address to,uint256 deadline) returns (uint amountToken, uint amountETH)''
                = Inr (inputs, Some outputs)
            \<and> (\<forall>s x. fst (handleTransferFrom e s (Some x)) = Inr ())
            \<and> (\<forall>s x. fst (handleTransfer e s (Some x)) = Inr ())
            \<and> (\<forall>s x. fst (handleRecursively e s (Some x)) = Inr ())
            \<and> (\<forall>s x. fst (requestTokenMetadataOf e s x) = Inr ())
          \<longrightarrow> fst (removeDecode e node state)
              = Inr (Some \<lparr>rl_type = ''uniswap-v2-router-remove-liquidity'',
                     rl_actor = te_from node, rl_recipient = ri_to inputs,
                     rl_pool = te_to (subcalls ! 0), rl_tokenA = ri_token inputs,
                     rl_tokenB = Some ''0xeeeeeeeeeeeeeeeeeeeeeeeeeeeeeeeeeeeeeeee'',
                     rl_amountA = ro_amountToken outputs, rl_amountB = ro_amountETH outputs,
                     rl_liquidity = ri_liquidity inputs\<rparr>))"
proof (intro conjI impI)
  assume short: "length subcalls < 5"
  note eq = removeDecode_removeLiquidityETH [OF assms(1-4), unfolded Let_def]
  show "isl (fst (removeDecode e node state))"
  proof (cases "decodeFunctionWithFragment (abiRemoveInputs e) (abiRemoveOutputs e)
             (te_input node) (te_output node)
             ''removeLiquidityETH(address token,uint256 liquidity,uint256 amountTokenMin,uint256 amountETHMin,address to,uint256 deadline) returns (uint amountToken, uint amountETH)''")
    case (Inl err)
    then show ?thesis by (simp add: eq)
  next
    case (Inr decoded)
    obtain inputs' outputs' where decoded: "decoded = (inputs', outputs')"
      by (cases decoded)
    obtain err where
      "fst (decodeRemoveLiquidityETH e node (state\<lparr>handled := insert (te_path node) (handled state)\<rparr>)
              inputs' outputs' subcalls) = Inl err"
      using decodeRemoveLiquidityETH_short [OF short, of e node _ inputs' outputs']
      by (auto simp: isl_def)
    then show ?thesis
      using Inr decoded by (simp add: eq assms(5) [symmetric] andThen_raises)
  qed
next
  assume quiet: "length subcalls < 5
            \<and> decodeFunctionWithFragment (abiRemoveInputs e) (abiRemoveOutputs e)
                  (te_input node) (te_output node)
                  ''removeLiquidityETH(address token,uint256 liquidity,uint256 amountTokenMin,uint256 amountETHMin,address to,uint256 deadline) returns (uint amountToken, uint amountETH)''
                = Inr (ins, outs)
            \<and> (\<forall>s. fst (handleTransferFrom e s (at subcalls 0)) = Inr ())
            \<and> (\<forall>s. fst (handleRecursively e s (at subcalls 1)) = Inr ())
            \<and> (\<forall>s. fst (handleTransfer e s (at subcalls 2)) = Inr ())
            \<and> (\<forall>s. fst (handleRecursively e s (at subcalls 3)) = Inr ())"
  then have "fst (decodeRemoveLiquidityETH e node
                  (state\<lparr>handled := insert (te_path node) (handled state)\<rparr>) ins outs subcalls)
       = Inl TypeError"
    by (intro decodeRemoveLiquidityETH_short_TypeError) auto
  with quiet show "fst (removeDecode e node state) = Inl TypeError"
    unfolding removeDecode_removeLiquidityETH [OF assms(1-4)] Let_def
    by (simp add: assms(5) [symmetric] andThen_raises)
next
  assume full: "5 \<le> length subcalls
            \<and> decodeFunctionWithFragment (abiRemoveInputs e) (abiRemoveOutputs e)
                  (te_input node) (te_output node)
                  ''removeLiquidityETH(address token,uint256 liquidity,uint256 amountTokenMin,uint256 amountETHMin,address to,uint256 deadline) returns (uint amountToken, uint amountETH)''
                = Inr (inputs, Some outputs)
            \<and> (\<forall>s x. fst (handleTransferFrom e s (Some x)) = Inr ())
            \<and> (\<forall>s x. fst (handleTransfer e s (Some x)) = Inr ())
            \<and> (\<forall>s x. fst (handleRecursively e s (Some x)) = Inr ())
            \<and> (\<forall>s x. fst (requestTokenMetadataOf e s x) = Inr ())"
  then have d: "fst (decodeRemoveLiquidityETH e node
                  (state\<lparr>handled := insert (te_path node) (handled state)\<rparr>) inputs (Some outputs) subcalls)
       = Inr (te_to (subcalls ! 0), ri_token inputs, Some ''0xeeeeeeeeeeeeeeeeeeeeeeeeeeeeeeeeeeeeeeee'',
              ro_amountToken outputs, ro_amountETH outputs, ri_liquidity inputs, ri_to inputs)"
    by (intro decodeRemoveLiquidityETH_full) auto
  from full have m: "\<And>s x. fst (requestTokenMetadataOf e s x) = Inr ()"
    by blast
  from full show "fst (removeDecode e node state)
              = Inr (Some \<lparr>rl_type = ''uniswap-v2-router-remove-liquidity'',
                     rl_actor = te_from node, rl_recipient = ri_to inputs,
                     rl_pool = te_to (subcalls ! 0), rl_tokenA = ri_token inputs,
                     rl_tokenB = Some ''0xeeeeeeeeeeeeeeeeeeeeeeeeeeeeeeeeeeeeeeee'',
                     rl_amountA = ro_amountToken outputs, rl_amountB = ro_amountETH outputs,
                     rl_liquidity = ri_liquidity inputs\<rparr>)"
    unfolding removeDecode_removeLiquidityETH [OF assms(1-4)] Let_def
    by (simp add: assms(5) [symmetric] andThen_success [OF d] andThen_success [OF m])
qed

theorem removeLiquidityETH_needs_five_subcalls_witness:
  "fst (removeDecode sampleEnv
          (removeNode removeETHCalldata (Some removeETHReturndata) removeETHSubcalls) emptyHandled)
     = Inr (Some \<lparr>rl_type = ''uniswap-v2-router-remove-liquidity'',
              rl_actor = trader, rl_recipient = trader, rl_pool = pairAddress,
              rl_tokenA = Some dai, rl_tokenB = Some ''0xeeeeeeeeeeeeeeeeeeeeeeeeeeeeeeeeeeeeeeee'',
              rl_amountA = Some 2000, rl_amountB = Some 1, rl_liquidity = Some 44\<rparr>)
   \<and> isl (fst (removeDecode sampleEnv
          (removeNode removeETHCalldata (Some removeETHReturndata) (take 4 removeETHSubcalls))
          emptyHandled))
   \<and> fst (removeDecode sampleEnv
          (removeNode removeETHCalldata (Some removeETHReturndata) (take 4 removeETHSubcalls))
          emptyHandled) = Inl TypeError"
proof -
  let ?sig1 = "''removeLiquidity(address tokenA,address tokenB,uint256 liquidity,uint256 amountAMin,uint256 amountBMin,address to,uint256 deadline) returns (uint amountA, uint amountB)''"
  let ?sig2 = "''removeLiquidityETH(address token,uint256 liquidity,uint256 amountTokenMin,uint256 amountETHMin,address to,uint256 deadline) returns (uint amountToken, uint amountETH)''"
  let ?n5 = "removeNode removeETHCalldata (Some removeETHReturndata) removeETHSubcalls"
  let ?n4 = "removeNode removeETHCalldata (Some removeETHReturndata) (take 4 removeETHSubcalls)"
  have p5: "te_path ?n5 \<notin> handled emptyHandled" "te_type ?n5 = ''call''"
      "sighash sampleEnv ?sig1 \<noteq> take 10 (te_input ?n5)"
      "sighash sampleEnv ?sig2 = take 10 (te_input ?n5)"
      "removeETHSubcalls
         = filter (\<lambda>v. te_type v = ''call'' \<and> te_variant v = ''call'') (te_children ?n5)"
    by code_simp+
  have p4: "te_path ?n4 \<notin> handled emptyHandled" "te_type ?n4 = ''call''"
      "sighash sampleEnv ?sig1 \<noteq> take 10 (te_input ?n4)"
      "sighash sampleEnv ?sig2 = take 10 (te_input ?n4)"
      "take 4 removeETHSubcalls
         = filter (\<lambda>v. te_type v = ''call'' \<and> te_variant v = ''call'') (te_children ?n4)"
    by code_simp+
  have len: "5 \<le> length removeETHSubcalls" "length (take 4 removeETHSubcalls) < 5"
    by code_simp+
  have dec: "decodeFunctionWithFragment (abiRemoveInputs sampleEnv) (abiRemoveOutputs sampleEnv)
               (te_input ?n5) (te_output ?n5) ?sig2 = Inr (removeETHInputs, Some removeETHOutputs)"
      "decodeFunctionWithFragment (abiRemoveInputs sampleEnv) (abiRemoveOutputs sampleEnv)
               (te_input ?n4) (te_output ?n4) ?sig2 = Inr (removeETHInputs, Some removeETHOutputs)"
    by code_simp+
  have handlers:
      "\<forall>s x. fst (handleTransferFrom sampleEnv s (Some x)) = Inr ()"
      "\<forall>s x. fst (handleTransfer sampleEnv s (Some x)) = Inr ()"
      "\<forall>s x. fst (handleRecursively sampleEnv s (Some x)) = Inr ()"
      "\<forall>s x. fst (requestTokenMetadataOf sampleEnv s x) = Inr ()"
    by (simp_all add: sampleEnv_def markHandled_def)
  have given: "at (take 4 removeETHSubcalls) 0 = Some (removeETHSubcalls ! 0)"
      "at (take 4 removeETHSubcalls) 1 = Some (removeETHSubcalls ! 1)"
      "at (take 4 removeETHSubcalls) 2 = Some (removeETHSubcalls ! 2)"
      "at (take 4 removeETHSubcalls) 3 = Some (removeETHSubcalls ! 3)"
    by code_simp+
  have quiet:
      "\<forall>s. fst (handleTransferFrom sampleEnv s (at (take 4 removeETHSubcalls) 0)) = Inr ()"
      "\<forall>s. fst (handleRecursively sampleEnv s (at (take 4 removeETHSubcalls) 1)) = Inr ()"
      "\<forall>s. fst (handleTransfer sampleEnv s (at (take 4 removeETHSubcalls) 2)) = Inr ()"
      "\<forall>s. fst (handleRecursively sampleEnv s (at (take 4 removeETHSubcalls) 3)) = Inr ()"
    using handlers by (simp_all only: given simp_thms)
  have fields: "te_from ?n5 = trader" "ri_to removeETHInputs = trader"
      "te_to (removeETHSubcalls ! 0) = pairAddress" "ri_token removeETHInputs = Some dai"
      "ro_amountToken removeETHOutputs = Some 2000" "ro_amountETH removeETHOutputs = Some 1"
      "ri_liquidity removeETHInputs = Some 44"
    by code_simp+
  from removeLiquidityETH_needs_five_subcalls [OF p5, of _ _ removeETHInputs removeETHOutputs]
    len(1) dec(1) handlers
  have "fst (removeDecode sampleEnv ?n5 emptyHandled)
     = Inr (Some \<lparr>rl_type = ''uniswap-v2-router-remove-liquidity'',
              rl_actor = te_from ?n5, rl_recipient = ri_to removeETHInputs,
              rl_pool = te_to (removeETHSubcalls ! 0), rl_tokenA = ri_token removeETHInputs,
              rl_tokenB = Some ''0xeeeeeeeeeeeeeeeeeeeeeeeeeeeeeeeeeeeeeeee'',
              rl_amountA = ro_amountToken removeETHOutputs,
              rl_amountB = ro_amountETH removeETHOutputs,
              rl_liquidity = ri_liquidity removeETHInputs\<rparr>)"
    by blast
  moreover from removeLiquidityETH_needs_five_subcalls [OF p4] len(2)
  have "isl (fst (removeDecode sampleEnv ?n4 emptyHandled))"
    by blast
  moreover from removeLiquidityETH_needs_five_subcalls
      [OF p4, of removeETHInputs "Some removeETHOutputs"] len(2) dec(2) quiet
  have "fst (removeDecode sampleEnv ?n4 emptyHandled) = Inl TypeError"
    by blast
  ultimately show ?thesis
    by (simp only: fields simp_thms)
qed

section \<open>Priority of the amount sources\<close>

lemma at_last: "xs \<noteq> [] \<Longrightarrow> at xs (int (length xs) - 1) = Some (last xs)"
  by (cases xs rule: rev_cases) (simp_all add: at_def)

lemma at_last_empty: "at [] (int (length ([] :: 'a list)) - 1) = (None :: 'a option)"
  by (simp add: at_def)

lemma find_as_filter:
  "find P xs = (case filter P xs of [] \<Rightarrow> None | x # ys \<Rightarrow> Some x)"
  by (induction xs) auto

lemma find_rev_as_filter:
  "find P (rev xs) = (case filter P xs of [] \<Rightarrow> None | y # ys \<Rightarrow> Some (last (y # ys)))"
proof -
  have "find P (rev xs) = (case rev (filter P xs) of [] \<Rightarrow> None | x # ys \<Rightarrow> Some x)"
    by (simp add: find_as_filter [of P "rev xs"] rev_filter)
  also have "\<dots> = (if filter P xs = [] then None else Some (last (filter P xs)))"
    by (cases "filter P xs" rule: rev_cases) simp_all
  also have "\<dots> = (case filter P xs of [] \<Rightarrow> None | y # ys \<Rightarrow> Some (last (y # ys)))"
    by (cases "filter P xs") simp_all
  finally show ?thesis .
qed

lemma at_Cons_length: "at (x # xs) (int (length xs)) = Some (last (x # xs))"
  using at_last [of "x # xs"] by simp

lemma at_Nil: "at [] i = None"
  by (simp add: at_def)

lemma at_Cons_0: "at (x # xs) 0 = Some x"
  by (simp add: at_def)

lemma swapDecodeCall_result:
  assumes "fst (swapDecodeCall e state node) = Inr (Some r)"
    and "uniswapsByRouter (n_to node) = Some info"
    and "find (\<lambda>(name, func). hasSelector e (n_calldata node) name) swapFunctions = Some (name, md)"
    and "decodeFunctionWithFragment (abiSwapInputs e) (abiSwapOutputs e)
           (n_calldata node) (n_returndata node) name = Inr (inputs, outputs)"
  shows "\<exists>r1. pullFromEvents e info node (si_path inputs)
               (pullFromCalldata md node inputs
                  \<lparr>sa_type = ''uniswap-v2-router-swap'', operator = n_from node,
                   recipient = si_to inputs, tokenIn = at (si_path inputs) 0,
                   tokenOut = at (si_path inputs) (int (length (si_path inputs)) - 1),
                   amountIn = None, amountOutMin = None, amountOut = None,
                   amountInMax = None\<rparr>) = Inr r1
             \<and> pullFromReturndata e md node outputs r1 = Inr r"
  using assms
  by (auto simp: swapDecodeCall_def andThen_def bindE_def Let_def
      split: if_splits sum.splits prod.splits)

lemma pullFromCalldata_amounts:
  "amountIn r = None \<Longrightarrow> amountOut r = None \<Longrightarrow>
     amountIn (pullFromCalldata md node inputs r) = argsAmountIn md node inputs
     \<and> amountOut (pullFromCalldata md node inputs r) = argsAmountOut md inputs"
  by (simp add: pullFromCalldata_def argsAmountIn_def argsAmountOut_def)

lemma pullFromReturndata_amounts:
  assumes "pullFromReturndata e md node outputs r1 = Inr r"
  shows "amountIn r = amountIn r1
       \<and> amountOut r = (case returnAmountOut e md node outputs of Some v \<Rightarrow> v | None \<Rightarrow> amountOut r1)"
proof (cases outputs)
  case None
  with assms show ?thesis
    by (simp add: pullFromReturndata_def returnAmountOut_def)
next
  case (Some outs)
  show ?thesis
  proof (cases "fee md")
    case False
    with assms Some show ?thesis
      by (auto simp: pullFromReturndata_def returnAmountOut_def Let_def)
  next
    case True
    show ?thesis
    proof (cases "n_children node")
      case None
      with assms Some True show ?thesis
        by (simp add: pullFromReturndata_def returnAmountOut_def)
    next
      case (Some children)
      show ?thesis
      proof (cases "sm_output md")
        case Tokens
        let ?bs = "filter (\<lambda>v. hasSelector e (n_calldata v) ''balanceOf(address)'')
                     (filter (\<lambda>v. n_type v = ''staticcall'') children)"
        show ?thesis
        proof (cases ?bs)
          case Nil
          with assms \<open>outputs = Some outs\<close> True Some Tokens show ?thesis
            by (simp add: pullFromReturndata_def Let_def at_Nil)
        next
          case (Cons c cs)
          then have l: "at ?bs (int (length ?bs) - 1) = Some (last (c # cs))"
            using at_last [of ?bs] by simp
          from Cons have z: "at ?bs 0 = Some c"
            by (simp add: at_Cons_0)
          from assms \<open>outputs = Some outs\<close> True Some Tokens Cons show ?thesis
            by (auto simp: pullFromReturndata_def returnAmountOut_def Let_def bindE_def
                at_Cons_0 at_Cons_length split: sum.splits)
        qed
      next
        case Eth
        show ?thesis
        proof (cases "callsOf children")
          case Nil
          with assms \<open>outputs = Some outs\<close> True Some Eth show ?thesis
            by (simp add: pullFromReturndata_def Let_def at_Nil)
        next
          case (Cons c cs)
          with assms \<open>outputs = Some outs\<close> True Some Eth show ?thesis
            by (auto simp: pullFromReturndata_def returnAmountOut_def Let_def at_Cons_length)
        qed
      qed
    qed
  qed
qed

lemma pullFromEvents_unfold:
  assumes "n_logs node = Some logs"
    and "firstPairAddress e info path = Inr fp" and "lastPairAddress e info path = Inr lp"
  shows "pullFromEvents e info node path r0 =
     bindE (case swapLogsAt e node fp of
              [] \<Rightarrow> Inr r0
            | ev # evs \<Rightarrow>
                bindE (parseLog e ev) (\<lambda>parsedEvent.
                  Inr (r0\<lparr>amountIn :=
                         Some (if fst (getTokens (at path 0) (at path 1)) = at path 0
                               then amount0In parsedEvent else amount1In parsedEvent)\<rparr>)))
       (\<lambda>r. case swapLogsAt e node lp of
              [] \<Rightarrow> Inr r
            | ev # evs \<Rightarrow>
                bindE (parseLog e (last (ev # evs))) (\<lambda>parsedEvent.
                  Inr (r\<lparr>amountOut :=
                         Some (if fst (getTokens (at path (int (length path) - 2))
                                         (at path (int (length path) - 1)))
                                  = at path (int (length path) - 1)
                               then amount0Out parsedEvent else amount1Out parsedEvent)\<rparr>)))"
proof -
  have f: "\<And>p Q. find (\<lambda>event. l_address event = p) (filter Q logs)
        = (case filter (\<lambda>l. Q l \<and> l_address l = p) logs of [] \<Rightarrow> None | x # ys \<Rightarrow> Some x)"
    by (simp add: find_as_filter)
  have l: "\<And>p Q. find (\<lambda>event. l_address event = p) (rev (filter Q logs))
        = (case filter (\<lambda>l. Q l \<and> l_address l = p) logs of [] \<Rightarrow> None
           | y # ys \<Rightarrow> Some (last (y # ys)))"
    by (simp add: find_rev_as_filter)
  show ?thesis
    using assms
    by (simp add: pullFromEvents_def firstPairAddress_def lastPairAddress_def swapLogsAt_def
          Let_def case_prod_beta f l bindE_def
          split: list.splits cong: sum.case_cong)
qed

lemma pullFromEvents_no_logs:
  "n_logs node = None \<Longrightarrow> pullFromEvents e info node path r0 = Inr r0"
  by (simp add: pullFromEvents_def)

lemma pullFromEvents_pairs:
  assumes "n_logs node = Some logs" and "pullFromEvents e info node path r0 = Inr r1"
  shows "\<exists>fp lp. firstPairAddress e info path = Inr fp \<and> lastPairAddress e info path = Inr lp"
  using assms
  by (auto simp: pullFromEvents_def firstPairAddress_def lastPairAddress_def Let_def
      case_prod_beta bindE_def split: sum.splits)

lemma pullFromEvents_amounts:
  assumes "pullFromEvents e info node path r0 = Inr r1"
  shows "amountIn r1 = (case eventsAmountIn e info node path of Some v \<Rightarrow> Some v | None \<Rightarrow> amountIn r0)
       \<and> amountOut r1 = (case eventsAmountOut e info node path of Some v \<Rightarrow> Some v | None \<Rightarrow> amountOut r0)"
proof (cases "n_logs node")
  case None
  with assms have "r1 = r0"
    by (simp add: pullFromEvents_no_logs)
  with None show ?thesis
    by (simp add: eventsAmountIn_def eventsAmountOut_def swapLogsAt_def split: sum.splits)
next
  case (Some logs)
  from pullFromEvents_pairs [OF Some assms] obtain fp lp where
    fp: "firstPairAddress e info path = Inr fp" and lp: "lastPairAddress e info path = Inr lp"
    by blast
  from assms show ?thesis
    unfolding pullFromEvents_unfold [OF Some fp lp]
    by (auto simp: eventsAmountIn_def eventsAmountOut_def fp lp bindE_def
        split: list.splits sum.splits)
qed

text \<open>
  C2 (as stated). The claim says that a later source assigns an amount only where every earlier
  source left it unset. On the sample swapExactTokensForTokens call the arguments set amountIn
  to 100, the Swap log of the pair carries an input amount of 90, and the decoded record has
  amountIn = 90: the event step overwrote the value of the argument step.
\<close>

theorem event_overwrites_argument_amount:
  "amountIn (pullFromCalldata (snd swapExactTokensForTokens)
               (swapNode router swapCalldata None (Some [swapLog pairAddress swapLogData90]))
               (sampleInputs [weth, dai]) (swapRecord weth dai None None)) = Some 100
   \<and> fst (swapDecodeCall sampleEnv emptyState
            (swapNode router swapCalldata None (Some [swapLog pairAddress swapLogData90])))
       = Inr (Some (swapRecord weth dai (Some 90) (Some 95)))"
  by code_simp

text \<open>
  C2 (amended). The sources are applied in the fixed order call arguments, event logs, return
  data or nested diffing, and a later step assigns its field whenever its own source is
  available, whether or not an earlier step set the field. For every decoded swap: amountIn
  is the value of the first-hop Swap log if the pair emitted one, else the value of the
  arguments; amountOut is the value of the return data (or, for a fee-on-transfer function
  with children, of the nested calls) if outputs were decoded, else the value of the last-hop
  Swap log if the pair emitted one, else the value of the arguments.
\<close>

theorem later_sources_overwrite:
  assumes "fst (swapDecodeCall e state node) = Inr (Some r)"
    and "uniswapsByRouter (n_to node) = Some info"
    and "find (\<lambda>(name, func). hasSelector e (n_calldata node) name) swapFunctions = Some (name, md)"
    and "decodeFunctionWithFragment (abiSwapInputs e) (abiSwapOutputs e)
           (n_calldata node) (n_returndata node) name = Inr (inputs, outputs)"
  shows "amountIn r =
           (case eventsAmountIn e info node (si_path inputs) of
              Some v \<Rightarrow> Some v
            | None \<Rightarrow> argsAmountIn md node inputs)
       \<and> amountOut r =
           (case returnAmountOut e md node outputs of
              Some v \<Rightarrow> v
            | None \<Rightarrow>
                (case eventsAmountOut e info node (si_path inputs) of
                   Some v \<Rightarrow> Some v
                 | None \<Rightarrow> argsAmountOut md inputs))"
proof -
  let ?r0 = "\<lparr>sa_type = ''uniswap-v2-router-swap'', operator = n_from node,
              recipient = si_to inputs, tokenIn = at (si_path inputs) 0,
              tokenOut = at (si_path inputs) (int (length (si_path inputs)) - 1),
              amountIn = None, amountOutMin = None, amountOut = None, amountInMax = None\<rparr>"
  from swapDecodeCall_result [OF assms] obtain r1 where
    ev: "pullFromEvents e info node (si_path inputs) (pullFromCalldata md node inputs ?r0) = Inr r1"
    and ret: "pullFromReturndata e md node outputs r1 = Inr r"
    by blast
  have "amountIn (pullFromCalldata md node inputs ?r0) = argsAmountIn md node inputs
      \<and> amountOut (pullFromCalldata md node inputs ?r0) = argsAmountOut md inputs"
    by (rule pullFromCalldata_amounts) simp_all
  with pullFromEvents_amounts [OF ev] pullFromReturndata_amounts [OF ret]
  show ?thesis
    by (simp split: option.splits)
qed

theorem later_sources_overwrite_witness:
  "fst (swapDecodeCall sampleEnv emptyState
          (swapNode router swapCalldata None (Some [swapLog pairAddress swapLogData90])))
     = Inr (Some (swapRecord weth dai (Some 90) (Some 95)))
   \<and> argsAmountIn (snd swapExactTokensForTokens)
         (swapNode router swapCalldata None (Some [swapLog pairAddress swapLogData90]))
         (sampleInputs [weth, dai]) = Some 100
   \<and> eventsAmountIn sampleEnv firstRouter
         (swapNode router swapCalldata None (Some [swapLog pairAddress swapLogData90]))
         [weth, dai] = Some 90
   \<and> amountIn (swapRecord weth dai (Some 90) (Some 95)) = Some 90"
proof -
  let ?node = "swapNode router swapCalldata None (Some [swapLog pairAddress swapLogData90])"
  have h: "fst (swapDecodeCall sampleEnv emptyState ?node)
             = Inr (Some (swapRecord weth dai (Some 90) (Some 95)))"
      "uniswapsByRouter (n_to ?node) = Some firstRouter"
      "find (\<lambda>(name, func). hasSelector sampleEnv (n_calldata ?node) name) swapFunctions
         = Some (fst swapExactTokensForTokens, snd swapExactTokensForTokens)"
      "decodeFunctionWithFragment (abiSwapInputs sampleEnv) (abiSwapOutputs sampleEnv)
         (n_calldata ?node) (n_returndata ?node) (fst swapExactTokensForTokens)
         = Inr (sampleInputs [weth, dai], None)"
    by code_simp+
  have v: "argsAmountIn (snd swapExactTokensForTokens) ?node (sampleInputs [weth, dai]) = Some 100"
      "eventsAmountIn sampleEnv firstRouter ?node [weth, dai] = Some 90"
      "si_path (sampleInputs [weth, dai]) = [weth, dai]"
    by code_simp+
  from later_sources_overwrite [OF h] v h(1) show ?thesis
    by simp
qed

section \<open>The swapExactTokensForTokens scenario\<close>

lemma getTokens_sorted: "b < a \<Longrightarrow> getTokens (Some a) (Some b) = (Some b, Some a)"
  by (auto simp: getTokens_def)

lemma getTokens_already_sorted: "b < a \<Longrightarrow> getTokens (Some b) (Some a) = (Some b, Some a)"
  by (simp add: getTokens_def)

lemma pair_path_addresses:
  assumes "B < A"
    and "computePairAddress e (factory info) (initcodeHash info) (Some A) (Some B) = Inr p"
  shows "firstPairAddress e info [A, B] = Inr p" and "lastPairAddress e info [A, B] = Inr p"
proof -
  have "computePairAddress e (factory info) (initcodeHash info) (Some B) (Some A) = Inr p"
    using assms(2) by (simp add: computePairAddress_def getTokens_commute)
  then show "firstPairAddress e info [A, B] = Inr p" and "lastPairAddress e info [A, B] = Inr p"
    using assms(1)
    by (simp_all add: firstPairAddress_def lastPairAddress_def at_def getTokens_sorted)
qed

lemma pullFromEvents_single_hop:
  assumes "B < A"
    and "computePairAddress e (factory info) (initcodeHash info) (Some A) (Some B) = Inr p"
    and "n_logs node = Some logs"
    and "swapLogsAt e node p = [ev]"
    and "parseLog e ev = Inr parsed"
  shows "pullFromEvents e info node [A, B] r
           = Inr (r\<lparr>amountIn := Some (amount1In parsed), amountOut := Some (amount0Out parsed)\<rparr>)"
proof -
  from assms(1) have ne: "B \<noteq> A" by auto
  show ?thesis
    unfolding pullFromEvents_unfold [OF assms(3) pair_path_addresses [OF assms(1,2)]]
    using assms(1) ne
    by (simp add: assms(4,5) bindE_def at_def getTokens_sorted)
qed

text \<open>
  C7 (as stated). The claim says that a swapExactTokensForTokens call to a known router with
  path [A, B], amountIn = 100, amountOutMin = 1 and a Swap log with amount0Out = 95 at the pair
  address derived for (A, B) decodes to amountIn = 100, amountOut = 95. On the sample call
  with the path [DAI, WETH] all of this holds, and the record has amountOut = 0: DAI, the input
  token, sorts first, so the decoder reads the output from amount1Out.
\<close>

theorem swap_scenario_unsorted_path_counterexample:
  "uniswapsByRouter router = Some firstRouter
   \<and> hasSelector sampleEnv swapCalldataDW (fst swapExactTokensForTokens)
   \<and> abiSwapInputs sampleEnv (fst swapExactTokensForTokens) swapCalldataDW
       = Inr (sampleInputs [dai, weth])
   \<and> computePairAddress sampleEnv (factory firstRouter) (initcodeHash firstRouter)
         (Some dai) (Some weth) = Inr pairAddress
   \<and> parseLog sampleEnv (swapLog pairAddress swapLogDataDW)
       = Inr \<lparr>amount0In = 100, amount1In = 0, amount0Out = 95, amount1Out = 0\<rparr>
   \<and> fst (swapDecodeCall sampleEnv emptyState
            (swapNode router swapCalldataDW None (Some [swapLog pairAddress swapLogDataDW])))
       = Inr (Some (swapRecord dai weth (Some 100) (Some 0)))"
  by code_simp

text \<open>
  C7 (amended). For every unconsumed call node to a known router whose selector is the one of
  swapExactTokensForTokens, with path [A, B], amountIn = 100 and amountOutMin = 1, where B is
  the smaller of the two addresses, as a number and in the order of the decoder (B is token0
  of the pair), the pair address derived for (A, B) emitted exactly one Swap log among the
  logs of the node, with amount0Out = 95 and amount1In = 100, the node has no return data or
  the last returned amount is 95, and the consumption of the nested calls raises nothing: the
  decode returns the Swap record with amountIn = 100, amountOut = 95, tokenIn = A and
  tokenOut = B.
\<close>

theorem swapExactTokensForTokens_scenario:
  assumes "\<not> isConsumed state node" and "n_type node = ''call''"
    and "uniswapsByRouter (n_to node) = Some info"
    and "hasSelector e (n_calldata node) (fst swapExactTokensForTokens)"
    and "abiSwapInputs e (fst swapExactTokensForTokens) (n_calldata node) = Inr inputs"
    and "si_path inputs = [A, B]" and "si_amountIn inputs = Some 100"
    and "si_amountOutMin inputs = Some 1"
    and "addressValue B < addressValue A"
    and "n_returndata node = None
         \<or> (\<exists>rd outs. n_returndata node = Some rd
               \<and> abiSwapOutputs e (fst swapExactTokensForTokens) rd = Inr outs
               \<and> at (so_amounts outs) (int (length (so_amounts outs)) - 1) = Some 95)"
    and "fst (consumeForSwap e state node (snd swapExactTokensForTokens)) = Inr ()"
    and "B < A"
    and "computePairAddress e (factory info) (initcodeHash info) (Some A) (Some B) = Inr p"
    and "n_logs node = Some logs"
    and "swapLogsAt e node p = [ev]"
    and "parseLog e ev = Inr parsed"
    and "amount0Out parsed = 95" and "amount1In parsed = 100"
  shows "fst (swapDecodeCall e state node)
           = Inr (Some \<lparr>sa_type = ''uniswap-v2-router-swap'', operator = n_from node,
                    recipient = si_to inputs, tokenIn = Some A, tokenOut = Some B,
                    amountIn = Some 100, amountOutMin = Some 1, amountOut = Some 95,
                    amountInMax = None\<rparr>)"
proof -
  let ?sig = "fst swapExactTokensForTokens"
  let ?md = "snd swapExactTokensForTokens"
  have found: "find (\<lambda>(name, func). hasSelector e (n_calldata node) name) swapFunctions
                 = Some (?sig, ?md)"
    using assms(4) by (simp add: swapFunctions_def swapExactTokensForTokens_def)
  have md: "exactIn ?md" "sm_input ?md = Tokens" "sm_output ?md = Tokens" "\<not> fee ?md"
    by (simp_all add: swapExactTokensForTokens_def)
  obtain outputs where
    dec: "decodeFunctionWithFragment (abiSwapInputs e) (abiSwapOutputs e)
            (n_calldata node) (n_returndata node) ?sig = Inr (inputs, outputs)"
    and out: "outputs = None
       \<or> (\<exists>outs. outputs = Some outs
             \<and> at (so_amounts outs) (int (length (so_amounts outs)) - 1) = Some 95)"
    using assms(5,10) by (auto simp: decodeFunctionWithFragment_def)
  have ev: "\<And>r. pullFromEvents e info node [A, B] r
           = Inr (r\<lparr>amountIn := Some 100, amountOut := Some 95\<rparr>)"
    using pullFromEvents_single_hop [OF assms(12-16)] assms(17,18) by simp
  have ret: "\<And>r. amountOut r = Some 95 \<Longrightarrow> pullFromReturndata e ?md node outputs r = Inr r"
    using out md by (auto simp: pullFromReturndata_def Let_def)
  show ?thesis
    using assms(1-3) assms(6-8) md
    by (simp add: swapDecodeCall_def found dec andThen_success [OF assms(11)] Let_def
          pullFromCalldata_def ev ret bindE_def at_def case_prod_beta)
qed

theorem swapExactTokensForTokens_scenario_witness:
  "fst (swapDecodeCall sampleEnv emptyState
          (swapNode router swapCalldata None (Some [swapLog pairAddress swapLogData])))
     = Inr (Some (swapRecord weth dai (Some 100) (Some 95)))"
proof -
  let ?node = "swapNode router swapCalldata None (Some [swapLog pairAddress swapLogData])"
  let ?parsed = "\<lparr>amount0In = 0, amount1In = 100, amount0Out = 95, amount1Out = 0\<rparr>"
  have h: "\<not> isConsumed emptyState ?node" "n_type ?node = ''call''"
      "uniswapsByRouter (n_to ?node) = Some firstRouter"
      "hasSelector sampleEnv (n_calldata ?node) (fst swapExactTokensForTokens)"
      "abiSwapInputs sampleEnv (fst swapExactTokensForTokens) (n_calldata ?node)
         = Inr (sampleInputs [weth, dai])"
      "si_path (sampleInputs [weth, dai]) = [weth, dai]"
      "si_amountIn (sampleInputs [weth, dai]) = Some 100"
      "si_amountOutMin (sampleInputs [weth, dai]) = Some 1"
    by code_simp+
  have num: "addressValue dai < addressValue weth"
    by (simp add: addressValue_def hexDigit_def dai_def weth_def)
  have nr: "n_returndata ?node = None"
    by code_simp
  have k: "fst (consumeForSwap sampleEnv emptyState ?node (snd swapExactTokensForTokens)) = Inr ()"
      "dai < weth"
      "computePairAddress sampleEnv (factory firstRouter) (initcodeHash firstRouter)
         (Some weth) (Some dai) = Inr pairAddress"
      "n_logs ?node = Some [swapLog pairAddress swapLogData]"
      "swapLogsAt sampleEnv ?node pairAddress = [swapLog pairAddress swapLogData]"
      "parseLog sampleEnv (swapLog pairAddress swapLogData) = Inr ?parsed"
      "amount0Out ?parsed = 95" "amount1In ?parsed = 100"
    by code_simp+
  have f: "n_from ?node = trader" "si_to (sampleInputs [weth, dai]) = trader"
    by code_simp+
  from nr have r: "n_returndata ?node = None
         \<or> (\<exists>rd outs. n_returndata ?node = Some rd
               \<and> abiSwapOutputs sampleEnv (fst swapExactTokensForTokens) rd = Inr outs
               \<and> at (so_amounts outs) (int (length (so_amounts outs)) - 1) = Some 95)"
    by (rule disjI1)
  show ?thesis
    using swapExactTokensForTokens_scenario [OF h num r k]
    by (simp only: f swapRecord_def)
qed

section \<open>Balance difference of fee-on-transfer swaps\<close>

lemma swapDecodeCall_success:
  assumes "fst (swapDecodeCall e state node) = Inr (Some r)"
    and "find (\<lambda>(name, func). hasSelector e (n_calldata node) name) swapFunctions = Some (name, md)"
  shows "\<exists>inputs outputs r1.
           decodeFunctionWithFragment (abiSwapInputs e) (abiSwapOutputs e)
             (n_calldata node) (n_returndata node) name = Inr (inputs, outputs)
         \<and> pullFromReturndata e md node outputs r1 = Inr r"
proof -
  from assms(1) obtain info where i: "uniswapsByRouter (n_to node) = Some info"
    by (auto simp: swapDecodeCall_def split: if_splits option.splits)
  from assms i obtain inputs outputs where
    d: "decodeFunctionWithFragment (abiSwapInputs e) (abiSwapOutputs e)
             (n_calldata node) (n_returndata node) name = Inr (inputs, outputs)"
    by (auto simp: swapDecodeCall_def split: if_splits sum.splits)
  from swapDecodeCall_result [OF assms(1) i assms(2) d] d show ?thesis
    by blast
qed

lemma decodeFunctionWithFragment_outputs:
  assumes "decodeFunctionWithFragment decodeIn decodeOut calldata (Some rd) fragment
             = Inr (inputs, outputs)"
  shows "\<exists>outs. outputs = Some outs"
  using assms
  by (auto simp: decodeFunctionWithFragment_def split: sum.splits)

text \<open>
  C8 (as stated). The claim says that every token-output fee-on-transfer swap whose node has
  two nested balanceOf static calls returning 1000 and 1080 decodes to amountOut = 80. The
  balances are read only inside \<open>if (outputs)\<close>: on the sample call without return data the
  outputs are null and the record has no amountOut.
\<close>

theorem fee_swap_without_return_data_counterexample:
  "hasSelector sampleEnv (n_calldata (feeSwapNode None)) (fst swapExactTokensForTokensFee)
   \<and> fee (snd swapExactTokensForTokensFee)
   \<and> sm_output (snd swapExactTokensForTokensFee) = Tokens
   \<and> n_children (feeSwapNode None)
       = Some [transferFromCall, balanceOfCall ''0.2'' balance1000, pairSwapCall,
               balanceOfCall ''0.3'' balance1080]
   \<and> bigNumberFrom sampleEnv (n_returndata (balanceOfCall ''0.2'' balance1000)) = Inr 1000
   \<and> bigNumberFrom sampleEnv (n_returndata (balanceOfCall ''0.3'' balance1080)) = Inr 1080
   \<and> fst (swapDecodeCall sampleEnv emptyState (feeSwapNode None))
       = Inr (Some (swapRecord weth dai (Some 100) None))"
  by code_simp

text \<open>
  C8 (amended). For every token-output fee-on-transfer swap call whose return data is present
  and whose node carries two nested balanceOf static sub-calls returning 1000 and then 1080,
  the decoded Swap record has amountOut = 80.
\<close>

theorem fee_on_transfer_balance_difference:
  assumes "fst (swapDecodeCall e state node) = Inr (Some r)"
    and "find (\<lambda>(name, func). hasSelector e (n_calldata node) name) swapFunctions = Some (name, md)"
    and "fee md" and "sm_output md = Tokens"
    and "n_returndata node = Some rd"
    and "n_children node = Some children"
    and "filter (\<lambda>v. hasSelector e (n_calldata v) ''balanceOf(address)'')
           (filter (\<lambda>v. n_type v = ''staticcall'') children) = [c0, c1]"
    and "bigNumberFrom e (n_returndata c0) = Inr 1000"
    and "bigNumberFrom e (n_returndata c1) = Inr 1080"
  shows "amountOut r = Some 80"
proof -
  from swapDecodeCall_success [OF assms(1,2)] obtain inputs outputs r1 where
    d: "decodeFunctionWithFragment (abiSwapInputs e) (abiSwapOutputs e)
             (n_calldata node) (n_returndata node) name = Inr (inputs, outputs)"
    and p: "pullFromReturndata e md node outputs r1 = Inr r"
    by blast
  from d assms(5) obtain outs where o: "outputs = Some outs"
    using decodeFunctionWithFragment_outputs by fastforce
  have "returnAmountOut e md node outputs = Some (Some 80)"
    using assms(3,4,6-9) o by (simp add: returnAmountOut_def)
  with pullFromReturndata_amounts [OF p] show ?thesis
    by simp
qed

theorem fee_on_transfer_balance_difference_witness:
  "fst (swapDecodeCall sampleEnv emptyState (feeSwapNode (Some ''0x'')))
     = Inr (Some (swapRecord weth dai (Some 100) (Some 80)))
   \<and> amountOut (swapRecord weth dai (Some 100) (Some 80)) = Some 80"
proof -
  let ?node = "feeSwapNode (Some ''0x'')"
  have h: "fst (swapDecodeCall sampleEnv emptyState ?node)
             = Inr (Some (swapRecord weth dai (Some 100) (Some 80)))"
      "find (\<lambda>(name, func). hasSelector sampleEnv (n_calldata ?node) name) swapFunctions
         = Some (fst swapExactTokensForTokensFee, snd swapExactTokensForTokensFee)"
      "fee (snd swapExactTokensForTokensFee)"
      "sm_output (snd swapExactTokensForTokensFee) = Tokens"
      "n_returndata ?node = Some ''0x''"
      "n_children ?node
         = Some [transferFromCall, balanceOfCall ''0.2'' balance1000, pairSwapCall,
                 balanceOfCall ''0.3'' balance1080]"
      "filter (\<lambda>v. hasSelector sampleEnv (n_calldata v) ''balanceOf(address)'')
         (filter (\<lambda>v. n_type v = ''staticcall'')
            [transferFromCall, balanceOfCall ''0.2'' balance1000, pairSwapCall,
             balanceOfCall ''0.3'' balance1080])
         = [balanceOfCall ''0.2'' balance1000, balanceOfCall ''0.3'' balance1080]"
      "bigNumberFrom sampleEnv (n_returndata (balanceOfCall ''0.2'' balance1000)) = Inr 1000"
      "bigNumberFrom sampleEnv (n_returndata (balanceOfCall ''0.3'' balance1080)) = Inr 1080"
    by code_simp+
  from fee_on_transfer_balance_difference [OF h] h(1) show ?thesis
    by simp
qed

end
